theory Spec2Isabelle
  imports Complex_Main "HOL-Library.Multiset"
begin

section \<open>The feature-extraction pipeline of server/services/musicbrainz.ts\<close>

text \<open>
  The file server/services/musicbrainz.ts holds two revisions of the class
  MusicBrainzService. The definitions below embed the later one (the one with the bounded
  retry loop, the request deadline and the empty scaffold), from which the specification
  was written. The numeric helpers (mean, std, variance, meanVector, varianceMatrix,
  getDominantPitches) and aggregateFeatures are the same text in both revisions.

  A JavaScript number is modelled as a real: the arithmetic is exact, and there is no NaN
  and no infinity. An array is a list. A field that may be missing is an option.
\<close>

subsection \<open>Numeric aggregator\<close>

text \<open>mean: 0 on the empty array, otherwise reduce with + from 0, divided by the length.\<close>

definition mean :: "real list \<Rightarrow> real" where
  "mean arr = (if length arr = 0 then 0
               else fold (\<lambda>val sum. sum + val) arr 0 / real (length arr))"

definition variance :: "real list \<Rightarrow> real" where
  "variance arr = (if length arr = 0 then 0
                   else let m = mean arr
                        in fold (\<lambda>val sum. sum + (val - m) ^ 2) arr 0 / real (length arr))"

definition std :: "real list \<Rightarrow> real" where
  "std arr = (if length arr = 0 then 0
              else let m = mean arr;
                       variance = fold (\<lambda>val sum. sum + (val - m) ^ 2) arr 0 / real (length arr)
                   in sqrt variance)"

text \<open>
  The inner loop of meanVector:
  for (let i = 0; i < Math.min(length, vector.length); i++) result[i] += vector[i].
  Every index it reads is in range of both arrays, since result has length entries.
\<close>

definition addVector :: "nat \<Rightarrow> real list \<Rightarrow> real list \<Rightarrow> real list" where
  "addVector len vector result =
     fold (\<lambda>i res. res[i := res ! i + vector ! i]) [0..<min len (length vector)] result"

text \<open>
  meanVector: the empty array on no vectors; otherwise the length is that of vectors[0],
  the result starts as zeros, every vector is added by the inner loop, and every entry is
  divided by the number of vectors.
\<close>

definition meanVector :: "real list list \<Rightarrow> real list" where
  "meanVector vectors =
     (if length vectors = 0 then []
      else let len = (case vectors of [] \<Rightarrow> 0 | v0 # _ \<Rightarrow> length v0);
               result = fold (addVector len) vectors (replicate len 0)
           in map (\<lambda>val. val / real (length vectors)) result)"

text \<open>
  vector[i] || 0: reading past the end of an array gives undefined, which is falsy, and
  so is the number 0; both give 0.
\<close>

definition elemOrZero :: "real list \<Rightarrow> nat \<Rightarrow> real" where
  "elemOrZero vector i =
     (if i < length vector then (if vector ! i \<noteq> 0 then vector ! i else 0) else 0)"

text \<open>The body of the two inner loops of varianceMatrix, for one vector.\<close>

definition addCell :: "real list \<Rightarrow> real list \<Rightarrow> nat \<Rightarrow> nat \<Rightarrow> real list list \<Rightarrow> real list list" where
  "addCell meanVec vector i j matrix =
     (let diffI = elemOrZero vector i - meanVec ! i;
          diffJ = elemOrZero vector j - meanVec ! j
      in matrix[i := (matrix ! i)[j := matrix ! i ! j + diffI * diffJ]])"

definition addOuter :: "real list \<Rightarrow> nat \<Rightarrow> real list \<Rightarrow> real list list \<Rightarrow> real list list" where
  "addOuter meanVec len vector matrix =
     fold (\<lambda>i m. fold (\<lambda>j m'. addCell meanVec vector i j m') [0..<len] m) [0..<len] matrix"

definition varianceMatrix :: "real list list \<Rightarrow> real list list" where
  "varianceMatrix vectors =
     (if length vectors = 0 then []
      else let meanVec = meanVector vectors;
               len = length meanVec;
               matrix = fold (addOuter meanVec len) vectors (replicate len (replicate len 0))
           in map (\<lambda>row. map (\<lambda>val. val / real (length vectors)) row) matrix)"

text \<open>
  Array.prototype.sort with a comparator is a stable sort: an element goes before
  another one when the comparator is negative, and elements that compare equal keep their
  order. jsSort inserts each element, from the last to the first, in front of the first
  element that it does not have to follow.
\<close>

fun insertCmp :: "('a \<Rightarrow> 'a \<Rightarrow> real) \<Rightarrow> 'a \<Rightarrow> 'a list \<Rightarrow> 'a list" where
  "insertCmp cmp x [] = [x]"
| "insertCmp cmp x (y # ys) = (if cmp x y \<le> 0 then x # y # ys else y # insertCmp cmp x ys)"

definition jsSort :: "('a \<Rightarrow> 'a \<Rightarrow> real) \<Rightarrow> 'a list \<Rightarrow> 'a list" where
  "jsSort cmp xs = foldr (insertCmp cmp) xs []"

text \<open>
  getDominantPitches: the pairs (val, idx) of the mean vector, sorted with the comparator
  b.val - a.val, cut to the first three, projected to idx.
\<close>

definition getDominantPitches :: "real list list \<Rightarrow> nat list" where
  "getDominantPitches chromas =
     (if length chromas = 0 then []
      else let avgChroma = meanVector chromas;
               indexed = zip avgChroma [0..<length avgChroma];
               sorted = jsSort (\<lambda>a b. fst b - fst a) indexed
           in map snd (take 3 sorted))"

text \<open>
  The summand that one vector adds to entry (i, j) of the matrix, with a missing element
  read as 0. It is used to state what varianceMatrix computes.
\<close>

definition cellTerm :: "real list \<Rightarrow> real list \<Rightarrow> nat \<Rightarrow> nat \<Rightarrow> real" where
  "cellTerm meanVec vector i j =
     ((if i < length vector then vector ! i else 0) - meanVec ! i) *
     ((if j < length vector then vector ! j else 0) - meanVec ! j)"

text \<open>
  The order in which the sort leaves two indices of the mean vector: the greater value
  first, and on equal values the smaller index first.
\<close>

definition ranksBefore :: "real list \<Rightarrow> nat \<Rightarrow> nat \<Rightarrow> bool" where
  "ranksBefore avg i j = (avg ! j < avg ! i \<or> (avg ! i = avg ! j \<and> i < j))"

text \<open>The same order on the pairs (val, idx) that are sorted.\<close>

definition pairBefore :: "real \<times> nat \<Rightarrow> real \<times> nat \<Rightarrow> bool" where
  "pairBefore p q = (fst q < fst p \<or> (fst p = fst q \<and> snd p < snd q))"

subsection \<open>Feature documents and the aggregate profile\<close>

text \<open>
  interface AcousticBrainzFeatures: every level is optional. The fields of lowlevel carry
  the prefix ll, and the fields of the innermost objects the name of their object.
\<close>

record Rhythm =
  bpm :: "real option"
  beats_count :: "real option"

record KeyEdma =
  key_edma_key :: "string option"
  key_edma_scale :: "string option"

record Tonal =
  chroma_cens :: "real list option"
  key_edma :: "KeyEdma option"

record MfccStats =
  mfcc_mean :: "real list option"
  mfcc_var :: "real list option"

record SpectralCentroid =
  spectral_centroid_mean :: "real option"

record SpectralFlux =
  spectral_flux_var :: "real option"

record ZeroCrossingRate =
  zerocrossingrate_mean :: "real option"

record LowLevel =
  ll_mfcc :: "MfccStats option"
  ll_spectral_centroid :: "SpectralCentroid option"
  ll_spectral_flux :: "SpectralFlux option"
  ll_zerocrossingrate :: "ZeroCrossingRate option"

record AcousticBrainzFeatures =
  rhythm :: "Rhythm option"
  tonal :: "Tonal option"
  lowlevel :: "LowLevel option"

text \<open>The object that aggregateFeatures returns.\<close>

record Tempo =
  tempo_mean :: real
  tempo_std :: real
  tempo_range :: "real list"

record Mfcc =
  mean_vector :: "real list"
  variance_matrix :: "real list list"

record Chroma =
  dominant_pitches :: "nat list"
  avg_profile :: "real list"

record Spectral =
  avg_centroid :: real
  flux_variance :: real

record AggregateProfile =
  tempo :: Tempo
  mfcc :: Mfcc
  chroma :: Chroma
  spectral :: Spectral
  rhythm_complexity :: real

text \<open>
  The six arrays that the loop of aggregateFeatures fills. The test if (x) pushes a number
  when it is present and not 0, and an array when it is present: an array is an object,
  and an object is truthy, also when it is empty.
\<close>

record Collected =
  tempos :: "real list"
  mfccs :: "real list list"
  chromas :: "real list list"
  centroids :: "real list"
  fluxes :: "real list"
  zeroCrossings :: "real list"

text \<open>
  The optional chains of the loop: feature.rhythm?.bpm, feature.lowlevel?.mfcc?.mean,
  feature.tonal?.chroma_cens, feature.lowlevel?.spectral_centroid?.mean,
  feature.lowlevel?.spectral_flux?.var, feature.lowlevel?.zerocrossingrate?.mean.
\<close>

definition bpmOf :: "AcousticBrainzFeatures \<Rightarrow> real option" where
  "bpmOf d = Option.bind (rhythm d) bpm"

definition mfccMeanOf :: "AcousticBrainzFeatures \<Rightarrow> real list option" where
  "mfccMeanOf d = Option.bind (Option.bind (lowlevel d) ll_mfcc) mfcc_mean"

definition chromaOf :: "AcousticBrainzFeatures \<Rightarrow> real list option" where
  "chromaOf d = Option.bind (tonal d) chroma_cens"

definition centroidOf :: "AcousticBrainzFeatures \<Rightarrow> real option" where
  "centroidOf d = Option.bind (Option.bind (lowlevel d) ll_spectral_centroid) spectral_centroid_mean"

definition fluxOf :: "AcousticBrainzFeatures \<Rightarrow> real option" where
  "fluxOf d = Option.bind (Option.bind (lowlevel d) ll_spectral_flux) spectral_flux_var"

definition zeroCrossingOf :: "AcousticBrainzFeatures \<Rightarrow> real option" where
  "zeroCrossingOf d = Option.bind (Option.bind (lowlevel d) ll_zerocrossingrate) zerocrossingrate_mean"

definition pushNumber :: "real option \<Rightarrow> real list \<Rightarrow> real list" where
  "pushNumber v arr = (case v of None \<Rightarrow> arr | Some x \<Rightarrow> if x \<noteq> 0 then arr @ [x] else arr)"

definition pushArray :: "real list option \<Rightarrow> real list list \<Rightarrow> real list list" where
  "pushArray v arr = (case v of None \<Rightarrow> arr | Some xs \<Rightarrow> arr @ [xs])"

definition collectStep :: "AcousticBrainzFeatures \<Rightarrow> Collected \<Rightarrow> Collected" where
  "collectStep feature c =
     \<lparr> tempos = pushNumber (bpmOf feature) (tempos c),
       mfccs = pushArray (mfccMeanOf feature) (mfccs c),
       chromas = pushArray (chromaOf feature) (chromas c),
       centroids = pushNumber (centroidOf feature) (centroids c),
       fluxes = pushNumber (fluxOf feature) (fluxes c),
       zeroCrossings = pushNumber (zeroCrossingOf feature) (zeroCrossings c) \<rparr>"

definition collectAll :: "AcousticBrainzFeatures list \<Rightarrow> Collected" where
  "collectAll docs =
     fold collectStep docs
       \<lparr> tempos = [], mfccs = [], chromas = [], centroids = [], fluxes = [], zeroCrossings = [] \<rparr>"

text \<open>
  tempos.length > 0 ? [Math.min(...tempos), Math.max(...tempos)] : [0, 0].
  Math.min and Math.max are only called on a non-empty array.
\<close>

definition tempoRange :: "real list \<Rightarrow> real list" where
  "tempoRange ts = (case ts of [] \<Rightarrow> [0, 0] | t # rest \<Rightarrow> [fold min rest t, fold max rest t])"

definition aggregateFeatures :: "AcousticBrainzFeatures list \<Rightarrow> AggregateProfile" where
  "aggregateFeatures docs =
     (let c = collectAll docs
      in \<lparr> tempo = \<lparr> tempo_mean = mean (tempos c), tempo_std = std (tempos c),
                     tempo_range = tempoRange (tempos c) \<rparr>,
           mfcc = \<lparr> mean_vector = meanVector (mfccs c),
                    variance_matrix = varianceMatrix (mfccs c) \<rparr>,
           chroma = \<lparr> dominant_pitches = getDominantPitches (chromas c),
                      avg_profile = meanVector (chromas c) \<rparr>,
           spectral = \<lparr> avg_centroid = mean (centroids c),
                        flux_variance = variance (fluxes c) \<rparr>,
           rhythm_complexity = mean (zeroCrossings c) \<rparr>)"

text \<open>The literal that extractFeaturesFromSongs returns when no document was recovered.\<close>

definition emptyFeatures :: AggregateProfile where
  "emptyFeatures =
     \<lparr> tempo = \<lparr> tempo_mean = 0, tempo_std = 0, tempo_range = [0, 0] \<rparr>,
       mfcc = \<lparr> mean_vector = [], variance_matrix = [] \<rparr>,
       chroma = \<lparr> dominant_pitches = [], avg_profile = [] \<rparr>,
       spectral = \<lparr> avg_centroid = 0, flux_variance = 0 \<rparr>,
       rhythm_complexity = 0 \<rparr>"


text \<open>
  A document with one field cleared: what the document would be if the field were absent.
\<close>

definition withoutBpm :: "AcousticBrainzFeatures \<Rightarrow> AcousticBrainzFeatures" where
  "withoutBpm d = d\<lparr> rhythm := map_option (\<lambda>r. r\<lparr> bpm := None \<rparr>) (rhythm d) \<rparr>"

definition withoutCentroid :: "AcousticBrainzFeatures \<Rightarrow> AcousticBrainzFeatures" where
  "withoutCentroid d =
     d\<lparr> lowlevel := map_option
           (\<lambda>l. l\<lparr> ll_spectral_centroid :=
                     map_option (\<lambda>s. s\<lparr> spectral_centroid_mean := None \<rparr>) (ll_spectral_centroid l) \<rparr>)
           (lowlevel d) \<rparr>"

definition withoutFlux :: "AcousticBrainzFeatures \<Rightarrow> AcousticBrainzFeatures" where
  "withoutFlux d =
     d\<lparr> lowlevel := map_option
           (\<lambda>l. l\<lparr> ll_spectral_flux :=
                     map_option (\<lambda>s. s\<lparr> spectral_flux_var := None \<rparr>) (ll_spectral_flux l) \<rparr>)
           (lowlevel d) \<rparr>"

definition withoutZeroCrossing :: "AcousticBrainzFeatures \<Rightarrow> AcousticBrainzFeatures" where
  "withoutZeroCrossing d =
     d\<lparr> lowlevel := map_option
           (\<lambda>l. l\<lparr> ll_zerocrossingrate :=
                     map_option (\<lambda>z. z\<lparr> zerocrossingrate_mean := None \<rparr>) (ll_zerocrossingrate l) \<rparr>)
           (lowlevel d) \<rparr>"

definition withoutMfccMean :: "AcousticBrainzFeatures \<Rightarrow> AcousticBrainzFeatures" where
  "withoutMfccMean d =
     d\<lparr> lowlevel := map_option
           (\<lambda>l. l\<lparr> ll_mfcc := map_option (\<lambda>m. m\<lparr> mfcc_mean := None \<rparr>) (ll_mfcc l) \<rparr>)
           (lowlevel d) \<rparr>"

subsection \<open>The two external services\<close>

text \<open>
  A call of fetch either rejects (with AbortError when the deadline of 10 seconds aborts
  it, with TypeError on a network failure) or resolves to a response with a status and a
  body; the body is None when response.json() rejects. HttpError is the Error that the
  code throws itself on a status outside 200..299.
\<close>

datatype js_error = AbortError | TypeError | HttpError nat | SyntaxError

datatype 'a fetch_result = Rejected js_error | Response nat "'a option"

record MusicBrainzRecording =
  recording_id :: string
  recording_title :: string
  artist_credit :: "string list"

record MusicBrainzResponse =
  recordings :: "MusicBrainzRecording list option"

text \<open>
  What the process does to the outside, in order: a delay of so many milliseconds, a
  request to MusicBrainz for an artist and a title, a request to AcousticBrainz for a
  recording id. Messages on the console are left out.
\<close>

datatype event = Delay nat | SearchFetch string string | FeatureFetch string

text \<open>
  The services answer as they like: the answer to a request is any function of the
  request and of all that happened before it.
\<close>

record env =
  mbFetch :: "event list \<Rightarrow> string \<Rightarrow> string \<Rightarrow> MusicBrainzResponse fetch_result"
  abFetch :: "event list \<Rightarrow> string \<Rightarrow> AcousticBrainzFeatures fetch_result"

definition RATE_LIMIT_DELAY :: nat where
  "RATE_LIMIT_DELAY = 1000"

definition maxRetries :: nat where
  "maxRetries = 3"

definition delay :: "nat \<Rightarrow> event list \<Rightarrow> event list" where
  "delay ms tr = tr @ [Delay ms]"

definition responseOk :: "nat \<Rightarrow> bool" where
  "responseOk status = (200 \<le> status \<and> status \<le> 299)"

text \<open>const waitTime = attempt * 2000, after a 429 response.\<close>

definition waitTime :: "nat \<Rightarrow> nat" where
  "waitTime attempt = attempt * 2000"

text \<open>await this.delay(attempt * 1000), in the catch block.\<close>

definition retryWait :: "nat \<Rightarrow> nat" where
  "retryWait attempt = attempt * 1000"

subsection \<open>searchRecording\<close>

text \<open>
  The try block of one attempt ends in one of three ways: a return, the continue after a
  429 response, or a throw that the catch block receives.
\<close>

datatype attempt_outcome = Returned "string option" | Continue | Thrown js_error

definition searchAttempt ::
  "env \<Rightarrow> string \<Rightarrow> string \<Rightarrow> nat \<Rightarrow> event list \<Rightarrow> attempt_outcome \<times> event list" where
  "searchAttempt e artist title attempt tr =
     (let tr1 = delay RATE_LIMIT_DELAY tr;
          response = mbFetch e tr1 artist title;
          tr2 = tr1 @ [SearchFetch artist title]
      in case response of
           Rejected err \<Rightarrow> (Thrown err, tr2)
         | Response status body \<Rightarrow>
             if \<not> responseOk status then
               (if status = 429 \<and> attempt < maxRetries
                then (Continue, delay (waitTime attempt) tr2)
                else (Thrown (HttpError status), tr2))
             else (case body of
                     None \<Rightarrow> (Thrown SyntaxError, tr2)
                   | Some data \<Rightarrow>
                       (case recordings data of
                          Some (r # _) \<Rightarrow> (Returned (Some (recording_id r)), tr2)
                        | _ \<Rightarrow> (Returned None, tr2))))"

function searchLoop ::
  "env \<Rightarrow> string \<Rightarrow> string \<Rightarrow> nat \<Rightarrow> event list \<Rightarrow> string option \<times> event list" where
  "searchLoop e artist title attempt tr =
     (if attempt \<le> maxRetries then
        (case searchAttempt e artist title attempt tr of
           (Returned r, tr') \<Rightarrow> (r, tr')
         | (Continue, tr') \<Rightarrow> searchLoop e artist title (attempt + 1) tr'
         | (Thrown err, tr') \<Rightarrow>
             if attempt = maxRetries then (None, tr')
             else searchLoop e artist title (attempt + 1) (delay (retryWait attempt) tr'))
      else (None, tr))"
  by pat_completeness auto
termination
  by (relation "measure (\<lambda>(e, artist, title, attempt, tr). Suc maxRetries - attempt)") auto

declare searchLoop.simps [simp del]

definition searchRecording ::
  "env \<Rightarrow> string \<Rightarrow> string \<Rightarrow> event list \<Rightarrow> string option \<times> event list" where
  "searchRecording e artist title tr = searchLoop e artist title 1 tr"

subsection \<open>getAudioFeatures\<close>

definition featuresAttempt ::
  "env \<Rightarrow> string \<Rightarrow> event list \<Rightarrow> (js_error + AcousticBrainzFeatures option) \<times> event list" where
  "featuresAttempt e mbid tr =
     (let response = abFetch e tr mbid;
          tr1 = tr @ [FeatureFetch mbid]
      in case response of
           Rejected err \<Rightarrow> (Inl err, tr1)
         | Response status body \<Rightarrow>
             if \<not> responseOk status then
               (if status = 404 then (Inr None, tr1) else (Inl (HttpError status), tr1))
             else (case body of
                     None \<Rightarrow> (Inl SyntaxError, tr1)
                   | Some doc \<Rightarrow> (Inr (Some doc), tr1)))"

definition getAudioFeatures ::
  "env \<Rightarrow> string \<Rightarrow> event list \<Rightarrow> AcousticBrainzFeatures option \<times> event list" where
  "getAudioFeatures e mbid tr =
     (case featuresAttempt e mbid tr of
        (Inl err, tr') \<Rightarrow> (None, tr')
      | (Inr r, tr') \<Rightarrow> (r, tr'))"

subsection \<open>extractFeaturesFromSongs\<close>

record Song =
  artist :: string
  title :: string

record ExtractResult =
  features :: "AggregateProfile option"
  processedCount :: nat

text \<open>
  The body of the loop over the songs. if (mbid) is false for null and for the empty
  string; if (features) is false for null only.
\<close>

definition songStep ::
  "env \<Rightarrow> Song \<Rightarrow> AcousticBrainzFeatures list \<times> nat \<times> event list
     \<Rightarrow> AcousticBrainzFeatures list \<times> nat \<times> event list" where
  "songStep e song s =
     (case s of (allFeatures, processed, tr) \<Rightarrow>
        (case searchRecording e (artist song) (title song) tr of
           (None, tr1) \<Rightarrow> (allFeatures, processed + 1, tr1)
         | (Some mbid, tr1) \<Rightarrow>
             if mbid = [] then (allFeatures, processed + 1, tr1)
             else (case getAudioFeatures e mbid tr1 of
                     (None, tr2) \<Rightarrow> (allFeatures, processed + 1, tr2)
                   | (Some doc, tr2) \<Rightarrow> (allFeatures @ [doc], processed + 1, tr2))))"

definition processSongs ::
  "env \<Rightarrow> Song list \<Rightarrow> event list \<Rightarrow> AcousticBrainzFeatures list \<times> nat \<times> event list" where
  "processSongs e songs tr = fold (songStep e) (take 500 songs) ([], 0, tr)"

definition extractFeaturesFromSongs ::
  "env \<Rightarrow> Song list \<Rightarrow> event list \<Rightarrow> ExtractResult \<times> event list" where
  "extractFeaturesFromSongs e songs tr =
     (case processSongs e songs tr of (allFeatures, processed, tr') \<Rightarrow>
        if length allFeatures = 0
        then (\<lparr> features = Some emptyFeatures, processedCount = processed \<rparr>, tr')
        else (\<lparr> features = Some (aggregateFeatures allFeatures), processedCount = processed \<rparr>, tr'))"

text \<open>
  Two readings of a sequence of events: the songs of its requests to MusicBrainz, and the
  delays that come right after such a request (the waits before a retry; the delay of
  RATE_LIMIT_DELAY comes before a request).
\<close>

fun searchedSongs :: "event list \<Rightarrow> (string \<times> string) list" where
  "searchedSongs [] = []"
| "searchedSongs (SearchFetch a t # tr) = (a, t) # searchedSongs tr"
| "searchedSongs (_ # tr) = searchedSongs tr"

fun backoffDelays :: "event list \<Rightarrow> nat list" where
  "backoffDelays (SearchFetch a t # Delay ms # tr) = ms # backoffDelays tr"
| "backoffDelays (_ # tr) = backoffDelays tr"
| "backoffDelays [] = []"

text \<open>
  The answers of MusicBrainz that do not end the retry loop: a rejected fetch, a status
  outside 200..299, or a body that does not parse. Among them, the 429 responses.
\<close>

definition searchFailed :: "MusicBrainzResponse fetch_result \<Rightarrow> bool" where
  "searchFailed r = (case r of Rejected err \<Rightarrow> True
                     | Response status body \<Rightarrow> \<not> responseOk status \<or> body = None)"

definition rateLimited :: "MusicBrainzResponse fetch_result \<Rightarrow> bool" where
  "rateLimited r = (case r of Rejected err \<Rightarrow> False | Response status body \<Rightarrow> status = 429)"

subsection \<open>Example services and documents\<close>

definition exampleDoc :: AcousticBrainzFeatures where
  "exampleDoc = \<lparr> rhythm = Some \<lparr> bpm = Some 120, beats_count = None \<rparr>, tonal = None, lowlevel = None \<rparr>"

definition exampleRecording :: MusicBrainzRecording where
  "exampleRecording = \<lparr> recording_id = ''mbid-1'', recording_title = ''Song'', artist_credit = [''Artist''] \<rparr>"

text \<open>Both services answer every request with a result.\<close>

definition healthyServices :: env where
  "healthyServices =
     \<lparr> mbFetch = (\<lambda>tr a t. Response 200 (Some \<lparr> recordings = Some [exampleRecording] \<rparr>)),
       abFetch = (\<lambda>tr m. Response 200 (Some exampleDoc)) \<rparr>"

text \<open>MusicBrainz answers 429 every time; AcousticBrainz knows no recording.\<close>

definition rateLimitedServices :: env where
  "rateLimitedServices =
     \<lparr> mbFetch = (\<lambda>tr a t. Response 429 None), abFetch = (\<lambda>tr m. Response 404 None) \<rparr>"

text \<open>
  MusicBrainz answers 429 to the first request ever made and 500 to every later one;
  requests to AcousticBrainz run into the deadline.
\<close>

definition mixedFailureServices :: env where
  "mixedFailureServices =
     \<lparr> mbFetch = (\<lambda>tr a t. if searchedSongs tr = [] then Response 429 None else Response 500 None),
       abFetch = (\<lambda>tr m. Rejected AbortError) \<rparr>"

text \<open>
  MusicBrainz answers with an empty list of recordings; AcousticBrainz answers 200 with a
  body that does not parse.
\<close>

definition emptyResultServices :: env where
  "emptyResultServices =
     \<lparr> mbFetch = (\<lambda>tr a t. Response 200 (Some \<lparr> recordings = Some [] \<rparr>)),
       abFetch = (\<lambda>tr m. Response 200 None) \<rparr>"

text \<open>MusicBrainz answers 503 every time, AcousticBrainz 500.\<close>

definition unavailableServices :: env where
  "unavailableServices =
     \<lparr> mbFetch = (\<lambda>tr a t. Response 503 None), abFetch = (\<lambda>tr m. Response 500 None) \<rparr>"

text \<open>
  Documents with vectors only: mfccDoc v has lowlevel.mfcc.mean = v, and vectorDoc v has
  that and tonal.chroma_cens = v.
\<close>

definition mfccDoc :: "real list \<Rightarrow> AcousticBrainzFeatures" where
  "mfccDoc v =
     \<lparr> rhythm = None, tonal = None,
       lowlevel = Some \<lparr> ll_mfcc = Some \<lparr> mfcc_mean = Some v, mfcc_var = None \<rparr>,
                         ll_spectral_centroid = None, ll_spectral_flux = None,
                         ll_zerocrossingrate = None \<rparr> \<rparr>"


text \<open>A document with rhythm.bpm = b and nothing else.\<close>

definition bpmDoc :: "real \<Rightarrow> AcousticBrainzFeatures" where
  "bpmDoc b = \<lparr> rhythm = Some \<lparr> bpm = Some b, beats_count = None \<rparr>, tonal = None, lowlevel = None \<rparr>"

text \<open>A document with the four scalar fields b, c, f, z and no vector.\<close>

definition scalarDoc :: "real \<Rightarrow> real \<Rightarrow> real \<Rightarrow> real \<Rightarrow> AcousticBrainzFeatures" where
  "scalarDoc b c f z =
     \<lparr> rhythm = Some \<lparr> bpm = Some b, beats_count = None \<rparr>, tonal = None,
       lowlevel = Some \<lparr> ll_mfcc = None,
                         ll_spectral_centroid = Some \<lparr> spectral_centroid_mean = Some c \<rparr>,
                         ll_spectral_flux = Some \<lparr> spectral_flux_var = Some f \<rparr>,
                         ll_zerocrossingrate = Some \<lparr> zerocrossingrate_mean = Some z \<rparr> \<rparr> \<rparr>"

subsection \<open>Facts about the loops of the numeric aggregator\<close>

lemma length_fold_update:
  "length (fold (\<lambda>i res. res[i := g res i]) idxs result) = length result"
  by (induction idxs arbitrary: result) simp_all

lemma length_addVector [simp]: "length (addVector len vector result) = length result"
  unfolding addVector_def by (rule length_fold_update)

lemma nth_fold_add_upt:
  "k < length result \<Longrightarrow>
   fold (\<lambda>i res. res[i := res ! i + f i]) [0..<n] result ! k
     = (if k < n then result ! k + f k else (result ! k :: real))"
proof (induction n)
  case 0
  then show ?case by simp
next
  case (Suc n)
  have len: "length (fold (\<lambda>i res. res[i := res ! i + f i]) [0..<n] result) = length result"
    by (rule length_fold_update)
  show ?case
  proof (cases "k = n")
    case True
    with Suc len show ?thesis by simp
  next
    case False
    with Suc len show ?thesis by (simp add: nth_list_update)
  qed
qed

lemma nth_addVector:
  assumes "k < length result" and "length result = len"
  shows "addVector len vector result ! k
           = result ! k + (if k < length vector then vector ! k else 0)"
  unfolding addVector_def using assms
  by (simp add: nth_fold_add_upt)

lemma length_fold_addVector [simp]:
  "length (fold (addVector len) vectors result) = length result"
  by (induction vectors arbitrary: result) simp_all

lemma nth_fold_addVector:
  "k < length result \<Longrightarrow> length result = len \<Longrightarrow>
   fold (addVector len) vectors result ! k
     = result ! k + (\<Sum>v\<leftarrow>vectors. if k < length v then v ! k else 0)"
proof (induction vectors arbitrary: result)
  case Nil
  then show ?case by simp
next
  case (Cons v vs)
  have "fold (addVector len) (v # vs) result ! k
          = fold (addVector len) vs (addVector len v result) ! k"
    by simp
  also have "\<dots> = addVector len v result ! k + (\<Sum>v\<leftarrow>vs. if k < length v then v ! k else 0)"
    using Cons.prems by (intro Cons.IH) simp_all
  also have "addVector len v result ! k = result ! k + (if k < length v then v ! k else 0)"
    using Cons.prems by (rule nth_addVector)
  finally show ?case by simp
qed

lemma length_meanVector: "length (meanVector vectors) = (case vectors of [] \<Rightarrow> 0 | v0 # _ \<Rightarrow> length v0)"
  by (cases vectors) (simp_all add: meanVector_def Let_def)

lemma nth_meanVector:
  assumes "vectors \<noteq> []" and "k < length (hd vectors)"
  shows "meanVector vectors ! k
           = (\<Sum>v\<leftarrow>vectors. if k < length v then v ! k else 0) / real (length vectors)"
proof -
  from assms obtain v0 vs where vs: "vectors = v0 # vs" by (cases vectors) auto
  with assms have k: "k < length v0" by simp
  have "fold (addVector (length v0)) vectors (replicate (length v0) 0) ! k
          = replicate (length v0) 0 ! k + (\<Sum>v\<leftarrow>vectors. if k < length v then v ! k else 0)"
    using k by (intro nth_fold_addVector) simp_all
  with k show ?thesis
    by (simp add: meanVector_def Let_def vs)
qed

lemma sum_list_skip: "(\<Sum>v\<leftarrow>vectors. if P v then f v else (0::real)) = (\<Sum>v\<leftarrow>filter P vectors. f v)"
  by (induction vectors) simp_all

subsection \<open>Claims about the numeric aggregator\<close>

text \<open>
  C4. meanVector of no vectors is the empty vector. For a non-empty collection the result
  is as long as the first vector, and its entry at index i is the sum of v[i] over the
  vectors v that have an index i, divided by the number of all vectors.
\<close>

theorem C4_meanVector_contract:
  "meanVector [] = [] \<and>
   length (meanVector (v0 # vs)) = length v0 \<and>
   (\<forall>i < length v0.
      meanVector (v0 # vs) ! i
        = (\<Sum>v\<leftarrow>filter (\<lambda>v. i < length v) (v0 # vs). v ! i) / real (length (v0 # vs)))"
proof (intro conjI allI impI)
  show "meanVector [] = []" by (simp add: meanVector_def)
  show "length (meanVector (v0 # vs)) = length v0" by (simp add: length_meanVector)
  fix i assume "i < length v0"
  then have "meanVector (v0 # vs) ! i
      = (\<Sum>v\<leftarrow>v0 # vs. if i < length v then v ! i else 0) / real (length (v0 # vs))"
    by (intro nth_meanVector) simp_all
  then show "meanVector (v0 # vs) ! i
      = (\<Sum>v\<leftarrow>filter (\<lambda>v. i < length v) (v0 # vs). v ! i) / real (length (v0 # vs))"
    by (simp only: sum_list_skip)
qed

theorem C4_meanVector_contract_witness:
  "meanVector [[1, 2, 3], [4], [5, 6, 7, 8]] = [10 / 3, 8 / 3, 10 / 3] \<and>
   length (meanVector [[1, 2, 3], [4], [5, 6, 7, 8]]) = 3 \<and>
   meanVector [[1, 2, 3], [4], [5, 6, 7, 8]] ! 1 = (2 + 6) / 3"
proof -
  have mv: "meanVector [[1, 2, 3], [4], [5, 6, 7, 8]] = [10 / 3, 8 / 3, 10 / 3]"
    by (simp add: meanVector_def addVector_def Let_def upt_rec [of 0] upt_rec [of 1] upt_rec [of 2]
        upt_rec [of 3])
  from C4_meanVector_contract [of "[1, 2, 3]" "[[4], [5, 6, 7, 8]]"]
  have "(1::nat) < length [1::real, 2, 3] \<longrightarrow>
        meanVector [[1, 2, 3], [4], [5, 6, 7, 8]] ! 1
          = (\<Sum>v\<leftarrow>filter (\<lambda>v. 1 < length v) [[1, 2, 3], [4], [5, 6, 7, 8]]. v ! 1)
              / real (length [[1::real, 2, 3], [4], [5, 6, 7, 8]])"
    by blast
  then have "meanVector [[1, 2, 3], [4], [5, 6, 7, 8]] ! 1 = (2 + 6) / 3" by simp
  with mv show ?thesis by simp
qed
subsection \<open>The loops of varianceMatrix\<close>

lemma elemOrZero_eq: "elemOrZero vector i = (if i < length vector then vector ! i else 0)"
  by (simp add: elemOrZero_def)

lemma fold_row_update:
  "i < length m \<Longrightarrow>
   fold (\<lambda>j m'. m'[i := (m' ! i)[j := m' ! i ! j + f j]]) js m
     = m[i := fold (\<lambda>j row. row[j := row ! j + (f j :: real)]) js (m ! i)]"
proof (induction js arbitrary: m)
  case Nil
  then show ?case by simp
next
  case (Cons j js)
  let ?m' = "m[i := (m ! i)[j := m ! i ! j + f j]]"
  have "fold (\<lambda>j m'. m'[i := (m' ! i)[j := m' ! i ! j + f j]]) (j # js) m
          = fold (\<lambda>j m'. m'[i := (m' ! i)[j := m' ! i ! j + f j]]) js ?m'"
    by simp
  also have "\<dots> = ?m'[i := fold (\<lambda>j row. row[j := row ! j + f j]) js (?m' ! i)]"
    using Cons.prems by (intro Cons.IH) simp
  also have "\<dots> = m[i := fold (\<lambda>j row. row[j := row ! j + f j]) (j # js) (m ! i)]"
    using Cons.prems by simp
  finally show ?case .
qed

lemma length_fold_rows:
  "length (fold (\<lambda>i m. m[i := h i m]) idxs m) = length m"
  by (induction idxs arbitrary: m) simp_all

lemma nth_fold_rows_upt:
  "a < length m \<Longrightarrow>
   fold (\<lambda>i m. m[i := g i (m ! i)]) [0..<n] m ! a = (if a < n then g a (m ! a) else m ! a)"
proof (induction n)
  case 0
  then show ?case by simp
next
  case (Suc n)
  have len: "length (fold (\<lambda>i m. m[i := g i (m ! i)]) [0..<n] m) = length m"
    by (rule length_fold_rows)
  show ?case
  proof (cases "a = n")
    case True
    with Suc len show ?thesis by simp
  next
    case False
    with Suc len show ?thesis by (simp add: nth_list_update)
  qed
qed

lemma addOuter_rows:
  assumes "len \<le> length matrix"
  shows "addOuter meanVec len vector matrix
     = fold (\<lambda>i m. m[i := fold (\<lambda>j row. row[j := row ! j + cellTerm meanVec vector i j]) [0..<len] (m ! i)])
         [0..<len] matrix"
proof -
  have "\<And>idxs m. set idxs \<subseteq> {..<len} \<Longrightarrow> len \<le> length m \<Longrightarrow>
      fold (\<lambda>i m. fold (\<lambda>j m'. addCell meanVec vector i j m') [0..<len] m) idxs m
    = fold (\<lambda>i m. m[i := fold (\<lambda>j row. row[j := row ! j + cellTerm meanVec vector i j]) [0..<len] (m ! i)]) idxs m"
  proof -
    fix idxs :: "nat list" and m :: "real list list"
    show "set idxs \<subseteq> {..<len} \<Longrightarrow> len \<le> length m \<Longrightarrow>
      fold (\<lambda>i m. fold (\<lambda>j m'. addCell meanVec vector i j m') [0..<len] m) idxs m
    = fold (\<lambda>i m. m[i := fold (\<lambda>j row. row[j := row ! j + cellTerm meanVec vector i j]) [0..<len] (m ! i)]) idxs m"
    proof (induction idxs arbitrary: m)
      case Nil
      then show ?case by simp
    next
      case (Cons i idxs)
      then have i: "i < length m" by auto
      have step: "fold (\<lambda>j m'. addCell meanVec vector i j m') [0..<len] m
          = m[i := fold (\<lambda>j row. row[j := row ! j + cellTerm meanVec vector i j]) [0..<len] (m ! i)]"
        unfolding addCell_def Let_def elemOrZero_eq cellTerm_def [symmetric]
        using i by (rule fold_row_update)
      show ?case
        using Cons.prems by (simp add: step Cons.IH)
    qed
  qed
  moreover have "set [0..<len] \<subseteq> {..<len}" by auto
  ultimately show ?thesis
    unfolding addOuter_def using assms by blast
qed

lemma length_addOuter: "len \<le> length matrix \<Longrightarrow> length (addOuter meanVec len vector matrix) = length matrix"
  by (simp add: addOuter_rows length_fold_rows)

lemma nth_addOuter:
  assumes "len \<le> length matrix" and "a < len"
  shows "addOuter meanVec len vector matrix ! a
     = fold (\<lambda>j row. row[j := row ! j + cellTerm meanVec vector a j]) [0..<len] (matrix ! a)"
  using assms
  by (simp add: addOuter_rows
      nth_fold_rows_upt [where g = "\<lambda>i r. fold (\<lambda>j row. row[j := row ! j + cellTerm meanVec vector i j]) [0..<len] r"])

lemma length_nth_addOuter:
  assumes "len \<le> length matrix" and "a < len"
  shows "length (addOuter meanVec len vector matrix ! a) = length (matrix ! a)"
  using assms by (simp add: nth_addOuter length_fold_update)

lemma nth_nth_addOuter:
  assumes "len \<le> length matrix" and "a < len" and "b < len" and "len \<le> length (matrix ! a)"
  shows "addOuter meanVec len vector matrix ! a ! b = matrix ! a ! b + cellTerm meanVec vector a b"
  using assms by (simp add: nth_addOuter nth_fold_add_upt)

lemma fold_addOuter:
  "length matrix = len \<Longrightarrow> \<forall>a<len. length (matrix ! a) = len \<Longrightarrow>
   length (fold (addOuter meanVec len) vectors matrix) = len \<and>
   (\<forall>a<len. length (fold (addOuter meanVec len) vectors matrix ! a) = len \<and>
      (\<forall>b<len. fold (addOuter meanVec len) vectors matrix ! a ! b
                  = matrix ! a ! b + (\<Sum>v\<leftarrow>vectors. cellTerm meanVec v a b)))"
proof (induction vectors arbitrary: matrix)
  case Nil
  then show ?case by simp
next
  case (Cons v vs)
  let ?m = "addOuter meanVec len v matrix"
  have l: "length ?m = len" using Cons.prems by (simp add: length_addOuter)
  have r: "\<forall>a<len. length (?m ! a) = len" using Cons.prems by (simp add: length_nth_addOuter)
  have e: "\<forall>a<len. \<forall>b<len. ?m ! a ! b = matrix ! a ! b + cellTerm meanVec v a b"
    using Cons.prems by (simp add: nth_nth_addOuter)
  from Cons.IH [OF l r] e show ?case by (simp add: add.assoc)
qed


lemma varianceMatrix_entries:
  assumes "vectors \<noteq> []"
  shows "length (varianceMatrix vectors) = length (meanVector vectors) \<and>
   (\<forall>i < length (meanVector vectors).
      length (varianceMatrix vectors ! i) = length (meanVector vectors) \<and>
      (\<forall>j < length (meanVector vectors).
         varianceMatrix vectors ! i ! j
           = (\<Sum>v\<leftarrow>vectors. cellTerm (meanVector vectors) v i j) / real (length vectors)))"
proof -
  let ?mv = "meanVector vectors"
  let ?n = "length ?mv"
  let ?m = "fold (addOuter ?mv ?n) vectors (replicate ?n (replicate ?n 0))"
  have vm: "varianceMatrix vectors = map (\<lambda>row. map (\<lambda>val. val / real (length vectors)) row) ?m"
    using assms by (simp add: varianceMatrix_def Let_def)
  have "length (replicate ?n (replicate ?n (0::real))) = ?n" by simp
  moreover have "\<forall>a<?n. length (replicate ?n (replicate ?n (0::real)) ! a) = ?n" by simp
  ultimately have f: "length ?m = ?n \<and>
   (\<forall>a<?n. length (?m ! a) = ?n \<and>
      (\<forall>b<?n. ?m ! a ! b
                  = replicate ?n (replicate ?n 0) ! a ! b + (\<Sum>v\<leftarrow>vectors. cellTerm ?mv v a b)))"
    by (rule fold_addOuter)
  show ?thesis
    unfolding vm using f by simp
qed

text \<open>
  C5. For a non-empty collection, varianceMatrix is a square matrix of the size N of the
  mean vector, and its entry (i, j) is the sum over all vectors of
  (v[i] - mean[i]) * (v[j] - mean[j]), divided by the number of vectors, where an element
  that a vector does not have counts as 0.
\<close>

theorem C5_varianceMatrix_entries:
  assumes "vectors \<noteq> []"
  shows "length (varianceMatrix vectors) = length (meanVector vectors) \<and>
   (\<forall>i < length (meanVector vectors).
      length (varianceMatrix vectors ! i) = length (meanVector vectors) \<and>
      (\<forall>j < length (meanVector vectors).
         varianceMatrix vectors ! i ! j
           = (\<Sum>v\<leftarrow>vectors.
                ((if i < length v then v ! i else 0) - meanVector vectors ! i) *
                ((if j < length v then v ! j else 0) - meanVector vectors ! j))
             / real (length vectors)))"
  using varianceMatrix_entries [OF assms] by (simp add: cellTerm_def)

theorem C5_varianceMatrix_entries_witness:
  "[[1, 2], [3 :: real]] \<noteq> [] \<and>
   meanVector [[1, 2], [3]] = [2, 1] \<and>
   varianceMatrix [[1, 2], [3]] = [[1, -1], [-1, 1]] \<and>
   varianceMatrix [[1, 2], [3]] ! 0 ! 1 = ((1 - 2) * (2 - 1) + (3 - 2) * (0 - 1)) / 2"
proof -
  have ne: "[[1, 2], [3 :: real]] \<noteq> []" by simp
  have mv: "meanVector [[1, 2], [3]] = [2, 1]"
    by (simp add: meanVector_def addVector_def Let_def upt_rec [of 0] upt_rec [of 1]
        upt_rec [of 2])
  have vm: "varianceMatrix [[1, 2], [3]] = [[1, -1], [-1, 1]]"
    by (simp add: varianceMatrix_def meanVector_def addVector_def addOuter_def addCell_def
        elemOrZero_def Let_def upt_rec [of 0] upt_rec [of 1] upt_rec [of 2])
  have l0: "0 < length (meanVector [[1, 2], [3 :: real]])" by (simp add: mv)
  have l1: "1 < length (meanVector [[1, 2], [3 :: real]])" by (simp add: mv)
  from C5_varianceMatrix_entries [OF ne] l0 l1
  have "varianceMatrix [[1, 2], [3]] ! 0 ! 1
           = (\<Sum>v\<leftarrow>[[1, 2], [3]].
                ((if 0 < length v then v ! 0 else 0) - meanVector [[1, 2], [3]] ! 0) *
                ((if 1 < length v then v ! 1 else 0) - meanVector [[1, 2], [3]] ! 1))
             / real (length [[1, 2], [3 :: real]])"
    by blast
  then have "varianceMatrix [[1, 2], [3]] ! 0 ! 1 = ((1 - 2) * (2 - 1) + (3 - 2) * (0 - 1)) / 2"
    by (simp add: mv)
  with ne mv vm show ?thesis by blast
qed

subsection \<open>The sort of getDominantPitches\<close>

lemma set_insertCmp: "set (insertCmp cmp x ys) = insert x (set ys)"
  by (induction ys) auto

lemma length_insertCmp: "length (insertCmp cmp x ys) = Suc (length ys)"
  by (induction ys) auto

lemma set_jsSort: "set (jsSort cmp xs) = set xs"
  by (induction xs) (simp_all add: jsSort_def set_insertCmp)

lemma length_jsSort: "length (jsSort cmp xs) = length xs"
  by (induction xs) (simp_all add: jsSort_def length_insertCmp)

lemma pairBefore_trans: "pairBefore p q \<Longrightarrow> pairBefore q r \<Longrightarrow> pairBefore p r"
  by (auto simp: pairBefore_def)

lemma sorted_insertCmp:
  assumes "sorted_wrt pairBefore ys" and "\<forall>y\<in>set ys. snd x < snd y"
  shows "sorted_wrt pairBefore (insertCmp (\<lambda>a b. fst b - fst a) x ys)"
  using assms
proof (induction ys)
  case Nil
  then show ?case by simp
next
  case (Cons y ys)
  show ?case
  proof (cases "fst y - fst x \<le> 0")
    case True
    then have xy: "pairBefore x y" using Cons.prems(2) by (auto simp: pairBefore_def)
    have "\<forall>z\<in>set ys. pairBefore x z"
      using Cons.prems(1) xy by (auto intro: pairBefore_trans)
    with True xy Cons.prems(1) show ?thesis by simp
  next
    case False
    then have yx: "pairBefore y x" by (simp add: pairBefore_def)
    have "sorted_wrt pairBefore (insertCmp (\<lambda>a b. fst b - fst a) x ys)"
      using Cons by simp
    with False yx Cons.prems(1) show ?thesis by (auto simp: set_insertCmp)
  qed
qed

lemma sorted_jsSort:
  "sorted_wrt (<) (map snd ps) \<Longrightarrow> sorted_wrt pairBefore (jsSort (\<lambda>a b. fst b - fst a) ps)"
proof (induction ps)
  case Nil
  then show ?case by (simp add: jsSort_def)
next
  case (Cons p ps)
  have "sorted_wrt pairBefore (jsSort (\<lambda>a b. fst b - fst a) ps)"
    using Cons by simp
  moreover have "\<forall>y\<in>set (jsSort (\<lambda>a b. fst b - fst a) ps). snd p < snd y"
    using Cons.prems by (auto simp: set_jsSort)
  ultimately have "sorted_wrt pairBefore (insertCmp (\<lambda>a b. fst b - fst a) p (jsSort (\<lambda>a b. fst b - fst a) ps))"
    by (rule sorted_insertCmp)
  then show ?case by (simp add: jsSort_def)
qed

lemma set_indexed: "set (zip avg [0..<length avg]) = {(avg ! i, i) | i. i < length avg}"
  by (auto simp: set_zip)

lemma dominant_of_avg:
  fixes avg :: "real list"
  defines "r \<equiv> map snd (take 3 (jsSort (\<lambda>a b. fst b - fst a) (zip avg [0..<length avg])))"
  shows "length r = min 3 (length avg)"
    and "set r \<subseteq> {..<length avg}"
    and "sorted_wrt (ranksBefore avg) r"
    and "\<forall>i<length avg. i \<notin> set r \<longrightarrow> (\<forall>k\<in>set r. ranksBefore avg k i)"
proof -
  let ?S = "jsSort (\<lambda>a b. fst b - fst a) (zip avg [0..<length avg])"
  have setS: "set ?S = {(avg ! i, i) | i. i < length avg}"
    by (simp only: set_jsSort set_indexed)
  have "sorted_wrt (<) (map snd (zip avg [0..<length avg]))"
    by (simp add: sorted_wrt_upt)
  then have sortedS: "sorted_wrt pairBefore ?S" by (rule sorted_jsSort)
  have mem: "\<And>p. p \<in> set ?S \<Longrightarrow> fst p = avg ! snd p \<and> snd p < length avg"
    using setS by auto
  have rel: "ranksBefore avg (snd p) (snd q)"
    if "p \<in> set ?S" and "q \<in> set ?S" and "pairBefore p q" for p q
  proof -
    from that(1) have "fst p = avg ! snd p" by (rule mem [THEN conjunct1])
    moreover from that(2) have "fst q = avg ! snd q" by (rule mem [THEN conjunct1])
    ultimately show ?thesis using that(3) by (simp add: pairBefore_def ranksBefore_def)
  qed
  have split: "sorted_wrt pairBefore (take 3 ?S @ drop 3 ?S)" using sortedS by simp
  then have st: "sorted_wrt pairBefore (take 3 ?S)"
    and cross: "\<forall>p\<in>set (take 3 ?S). \<forall>q\<in>set (drop 3 ?S). pairBefore p q"
    unfolding sorted_wrt_append by blast+
  show "length r = min 3 (length avg)"
    by (simp add: r_def length_jsSort min.commute)
  show "set r \<subseteq> {..<length avg}"
  proof
    fix k assume "k \<in> set r"
    then obtain p where p: "p \<in> set (take 3 ?S)" "snd p = k" by (auto simp: r_def)
    from p(1) have "p \<in> set ?S" by (rule in_set_takeD)
    from mem [OF this] p(2) show "k \<in> {..<length avg}" by simp
  qed
  have "sorted_wrt (\<lambda>p q. ranksBefore avg (snd p) (snd q)) (take 3 ?S)"
  proof (rule sorted_wrt_mono_rel [OF _ st])
    fix p q assume pq: "p \<in> set (take 3 ?S)" "q \<in> set (take 3 ?S)" "pairBefore p q"
    from pq(1) have p: "p \<in> set ?S" by (rule in_set_takeD)
    from pq(2) have q: "q \<in> set ?S" by (rule in_set_takeD)
    from p q pq(3) show "ranksBefore avg (snd p) (snd q)" by (rule rel)
  qed
  then show "sorted_wrt (ranksBefore avg) r"
    by (simp add: r_def sorted_wrt_map)
  show "\<forall>i<length avg. i \<notin> set r \<longrightarrow> (\<forall>k\<in>set r. ranksBefore avg k i)"
  proof (intro allI impI ballI)
    fix i k assume i: "i < length avg" and nr: "i \<notin> set r" and k: "k \<in> set r"
    from i have "(avg ! i, i) \<in> set ?S" using setS by blast
    then have "(avg ! i, i) \<in> set (take 3 ?S) \<union> set (drop 3 ?S)"
      by (metis append_take_drop_id set_append)
    moreover have "(avg ! i, i) \<notin> set (take 3 ?S)"
      using nr by (force simp: r_def)
    ultimately have d: "(avg ! i, i) \<in> set (drop 3 ?S)" by blast
    from k obtain p where p: "p \<in> set (take 3 ?S)" "snd p = k" by (auto simp: r_def)
    from cross p(1) d have "pairBefore p (avg ! i, i)" by blast
    have pb: "pairBefore p (avg ! i, i)" by fact
    have pS: "p \<in> set ?S" using p(1) by (rule in_set_takeD)
    have iS: "(avg ! i, i) \<in> set ?S" using d by (rule in_set_dropD)
    from pS iS pb have "ranksBefore avg (snd p) (snd (avg ! i, i))" by (rule rel)
    with p show "ranksBefore avg k i" by simp
  qed
qed

text \<open>
  C7. For a non-empty collection, getDominantPitches returns min(3, N) indices of the mean
  vector (N its length): they are in the order of the sort (greater mean value first, on
  equal values the smaller index first), and every index that is left out comes after each
  of them in that order. So they are the first three pairs of the stable descending sort,
  and all of the indices when there are fewer than three. For the two chroma vectors
  [1,0,0,...] and [0,1,0,...] of dimension 12 the result is [0, 1, 2].
\<close>

theorem C7_getDominantPitches_top3:
  "(vectors \<noteq> [] \<longrightarrow>
      length (getDominantPitches vectors) = min 3 (length (meanVector vectors)) \<and>
      set (getDominantPitches vectors) \<subseteq> {..<length (meanVector vectors)} \<and>
      sorted_wrt (ranksBefore (meanVector vectors)) (getDominantPitches vectors) \<and>
      (\<forall>i<length (meanVector vectors). i \<notin> set (getDominantPitches vectors) \<longrightarrow>
         (\<forall>k\<in>set (getDominantPitches vectors). ranksBefore (meanVector vectors) k i))) \<and>
   getDominantPitches [[1, 0, 0, 0, 0, 0, 0, 0, 0, 0, 0, 0], [0, 1, 0, 0, 0, 0, 0, 0, 0, 0, 0, 0]]
     = [0, 1, 2]"
proof (intro conjI impI)
  assume ne: "vectors \<noteq> []"
  then have g: "getDominantPitches vectors
     = map snd (take 3 (jsSort (\<lambda>a b. fst b - fst a)
         (zip (meanVector vectors) [0..<length (meanVector vectors)])))"
    by (simp add: getDominantPitches_def Let_def)
  show "length (getDominantPitches vectors) = min 3 (length (meanVector vectors))"
    unfolding g by (rule dominant_of_avg)
  show "set (getDominantPitches vectors) \<subseteq> {..<length (meanVector vectors)}"
    unfolding g by (rule dominant_of_avg)
  show "sorted_wrt (ranksBefore (meanVector vectors)) (getDominantPitches vectors)"
    unfolding g by (rule dominant_of_avg)
  show "\<forall>i<length (meanVector vectors). i \<notin> set (getDominantPitches vectors) \<longrightarrow>
         (\<forall>k\<in>set (getDominantPitches vectors). ranksBefore (meanVector vectors) k i)"
    unfolding g by (rule dominant_of_avg)
next
  show "getDominantPitches [[1, 0, 0, 0, 0, 0, 0, 0, 0, 0, 0, 0], [0, 1, 0, 0, 0, 0, 0, 0, 0, 0, 0, 0]]
     = [0, 1, 2]"
    by code_simp
qed

theorem C7_getDominantPitches_top3_witness:
  "[[1, 5, 3, 5, 2 :: real]] \<noteq> [] \<and>
   meanVector [[1, 5, 3, 5, 2]] = [1, 5, 3, 5, 2] \<and>
   getDominantPitches [[1, 5, 3, 5, 2]] = [1, 3, 2] \<and>
   sorted_wrt (ranksBefore [1, 5, 3, 5, 2]) [1, 3, 2] \<and>
   ranksBefore [1, 5, 3, 5, 2] 2 4"
proof -
  have ne: "[[1, 5, 3, 5, 2 :: real]] \<noteq> []" by simp
  have mv: "meanVector [[1, 5, 3, 5, 2]] = [1, 5, 3, 5, 2]" by code_simp
  have gd: "getDominantPitches [[1, 5, 3, 5, 2]] = [1, 3, 2]" by code_simp
  note top = C7_getDominantPitches_top3 [of "[[1, 5, 3, 5, 2]]", THEN conjunct1, rule_format, OF ne]
  from top have "sorted_wrt (ranksBefore (meanVector [[1, 5, 3, 5, 2]]))
                   (getDominantPitches [[1, 5, 3, 5, 2]])"
    by blast
  then have s: "sorted_wrt (ranksBefore [1, 5, 3, 5, 2]) [1, 3, 2]"
    by (simp only: mv gd)
  from top have "\<forall>i<length (meanVector [[1, 5, 3, 5, 2]]).
      i \<notin> set (getDominantPitches [[1, 5, 3, 5, 2]]) \<longrightarrow>
      (\<forall>k\<in>set (getDominantPitches [[1, 5, 3, 5, 2]]).
         ranksBefore (meanVector [[1, 5, 3, 5, 2]]) k i)"
    by blast
  then have "\<forall>i<length [1, 5, 3, 5, 2 :: real]. i \<notin> set [1, 3, 2 :: nat] \<longrightarrow>
      (\<forall>k\<in>set [1, 3, 2]. ranksBefore [1, 5, 3, 5, 2] k i)"
    by (simp only: mv gd)
  then have "4 < length [1, 5, 3, 5, 2 :: real] \<longrightarrow> 4 \<notin> set [1, 3, 2 :: nat] \<longrightarrow>
      (\<forall>k\<in>set [1, 3, 2]. ranksBefore [1, 5, 3, 5, 2] k 4)"
    by blast
  then have "ranksBefore [1, 5, 3, 5, 2] 2 4" by simp
  with ne mv gd s show ?thesis by blast
qed

subsection \<open>The retry loop, the single feature request and the loop over the songs\<close>

lemma not_ok_429 [simp]: "\<not> responseOk 429"
  by (simp add: responseOk_def)

lemma searchAttempt_miss:
  assumes "mbFetch e (delay RATE_LIMIT_DELAY tr) art ttl = Response status (Some data)"
    and "responseOk status"
    and "recordings data = Some [] \<or> recordings data = None"
  shows "searchAttempt e art ttl attempt tr
           = (Returned None, tr @ [Delay RATE_LIMIT_DELAY, SearchFetch art ttl])"
  using assms by (auto simp: searchAttempt_def Let_def delay_def)

lemma searchAttempt_429:
  assumes "rateLimited (mbFetch e (delay RATE_LIMIT_DELAY tr) art ttl)"
    and "attempt < maxRetries"
  shows "searchAttempt e art ttl attempt tr
           = (Continue, tr @ [Delay RATE_LIMIT_DELAY, SearchFetch art ttl, Delay (waitTime attempt)])"
  using assms
  by (auto simp: searchAttempt_def rateLimited_def Let_def delay_def split: fetch_result.splits)

lemma searchAttempt_failed:
  assumes "searchFailed (mbFetch e (delay RATE_LIMIT_DELAY tr) art ttl)"
    and "\<not> rateLimited (mbFetch e (delay RATE_LIMIT_DELAY tr) art ttl) \<or> attempt = maxRetries"
  shows "\<exists>err. searchAttempt e art ttl attempt tr
           = (Thrown err, tr @ [Delay RATE_LIMIT_DELAY, SearchFetch art ttl])"
  using assms
  by (auto simp: searchAttempt_def searchFailed_def rateLimited_def Let_def delay_def
      split: fetch_result.splits option.splits)

lemma searchLoop_miss:
  assumes "mbFetch e (delay RATE_LIMIT_DELAY tr) art ttl = Response status (Some data)"
    and "responseOk status"
    and "recordings data = Some [] \<or> recordings data = None"
    and "attempt \<le> maxRetries"
  shows "searchLoop e art ttl attempt tr
           = (None, tr @ [Delay RATE_LIMIT_DELAY, SearchFetch art ttl])"
  using assms(4) by (subst searchLoop.simps) (simp add: searchAttempt_miss [OF assms(1-3)])

lemma searchLoop_429:
  assumes "rateLimited (mbFetch e (delay RATE_LIMIT_DELAY tr) art ttl)"
    and "attempt < maxRetries"
  shows "searchLoop e art ttl attempt tr
           = searchLoop e art ttl (attempt + 1)
               (tr @ [Delay RATE_LIMIT_DELAY, SearchFetch art ttl, Delay (waitTime attempt)])"
  using assms(2) by (subst searchLoop.simps) (simp add: searchAttempt_429 [OF assms])

lemma searchLoop_failed:
  assumes "searchFailed (mbFetch e (delay RATE_LIMIT_DELAY tr) art ttl)"
    and "\<not> rateLimited (mbFetch e (delay RATE_LIMIT_DELAY tr) art ttl)"
    and "attempt < maxRetries"
  shows "searchLoop e art ttl attempt tr
           = searchLoop e art ttl (attempt + 1)
               (tr @ [Delay RATE_LIMIT_DELAY, SearchFetch art ttl, Delay (retryWait attempt)])"
proof -
  from assms(1,2) obtain err where
    "searchAttempt e art ttl attempt tr
       = (Thrown err, tr @ [Delay RATE_LIMIT_DELAY, SearchFetch art ttl])"
    using searchAttempt_failed by blast
  with assms(3) show ?thesis
    by (subst searchLoop.simps) (simp add: delay_def)
qed

lemma searchLoop_final:
  assumes "searchFailed (mbFetch e (delay RATE_LIMIT_DELAY tr) art ttl)"
    and "attempt = maxRetries"
  shows "searchLoop e art ttl attempt tr
           = (None, tr @ [Delay RATE_LIMIT_DELAY, SearchFetch art ttl])"
proof -
  from assms obtain err where
    "searchAttempt e art ttl attempt tr
       = (Thrown err, tr @ [Delay RATE_LIMIT_DELAY, SearchFetch art ttl])"
    using searchAttempt_failed by blast
  with assms(2) show ?thesis
    by (subst searchLoop.simps) simp
qed

lemma searchedSongs_append [simp]: "searchedSongs (xs @ ys) = searchedSongs xs @ searchedSongs ys"
  by (induction xs rule: searchedSongs.induct) simp_all

lemma searchAttempt_searched:
  "searchedSongs (snd (searchAttempt e art ttl attempt tr)) = searchedSongs tr @ [(art, ttl)]"
  by (simp add: searchAttempt_def Let_def delay_def split: fetch_result.splits option.splits list.splits)

lemma searchLoop_searched:
  "\<exists>n. n \<le> Suc maxRetries - attempt \<and> (attempt \<le> maxRetries \<longrightarrow> 1 \<le> n) \<and>
       searchedSongs (snd (searchLoop e art ttl attempt tr))
         = searchedSongs tr @ replicate n (art, ttl)"
proof (induction e art ttl attempt tr rule: searchLoop.induct)
  case (1 e art ttl attempt tr)
  show ?case
  proof (cases "attempt \<le> maxRetries")
    case False
    then show ?thesis by (subst searchLoop.simps) simp
  next
    case True
    obtain out tr' where sa: "searchAttempt e art ttl attempt tr = (out, tr')"
      by (cases "searchAttempt e art ttl attempt tr")
    have s: "searchedSongs tr' = searchedSongs tr @ [(art, ttl)]"
      using searchAttempt_searched [of e art ttl attempt tr] sa by simp
    show ?thesis
    proof (cases out)
      case (Returned r)
      with True sa s show ?thesis
        by (subst searchLoop.simps) (auto intro!: exI [of _ 1])
    next
      case Continue
      from "1.IH"(1) [OF True sa [symmetric] Continue]
      obtain n where n: "n \<le> Suc maxRetries - (attempt + 1)"
        "searchedSongs (snd (searchLoop e art ttl (attempt + 1) tr'))
           = searchedSongs tr' @ replicate n (art, ttl)"
        by blast
      have "searchLoop e art ttl attempt tr = searchLoop e art ttl (attempt + 1) tr'"
        using True sa Continue by (subst searchLoop.simps) simp
      with n s True show ?thesis
        by (intro exI [of _ "Suc n"]) (simp add: replicate_append_same)
    next
      case (Thrown err)
      show ?thesis
      proof (cases "attempt = maxRetries")
        case True
        with sa s Thrown show ?thesis
          by (subst searchLoop.simps) (auto intro!: exI [of _ 1])
      next
        case False
        from "1.IH"(2) [OF True sa [symmetric] Thrown False]
        obtain n where n: "n \<le> Suc maxRetries - (attempt + 1)"
          "searchedSongs (snd (searchLoop e art ttl (attempt + 1) (delay (retryWait attempt) tr')))
             = searchedSongs (delay (retryWait attempt) tr') @ replicate n (art, ttl)"
          by blast
        have "searchLoop e art ttl attempt tr
                = searchLoop e art ttl (attempt + 1) (delay (retryWait attempt) tr')"
          using True False sa Thrown by (subst searchLoop.simps) simp
        with n s True show ?thesis
          by (intro exI [of _ "Suc n"]) (simp add: replicate_append_same delay_def)
      qed
    qed
  qed
qed

lemma getAudioFeatures_trace: "snd (getAudioFeatures e mbid tr) = tr @ [FeatureFetch mbid]"
  by (simp add: getAudioFeatures_def featuresAttempt_def Let_def
      split: fetch_result.splits option.splits sum.splits prod.splits)

lemma getAudioFeatures_result:
  "fst (getAudioFeatures e mbid tr)
     = (case abFetch e tr mbid of
          Rejected err \<Rightarrow> None
        | Response status body \<Rightarrow> if responseOk status then body else None)"
  by (simp add: getAudioFeatures_def featuresAttempt_def Let_def
      split: fetch_result.splits option.splits sum.splits prod.splits)

text \<open>
  C8. getAudioFeatures makes exactly one request and no other move: the events after the
  call are the events before it and one FeatureFetch. A 404 response gives null, and so
  does a rejected fetch (the deadline or the network), any other status outside 200..299
  and a body that does not parse; a response with a status in 200..299 and a body gives
  the body. The result is a value in every case: nothing is thrown to the caller.
\<close>

theorem C8_getAudioFeatures_single_attempt:
  "snd (getAudioFeatures e mbid tr) = tr @ [FeatureFetch mbid] \<and>
   (\<forall>body. abFetch e tr mbid = Response 404 body \<longrightarrow> fst (getAudioFeatures e mbid tr) = None) \<and>
   (\<forall>err. abFetch e tr mbid = Rejected err \<longrightarrow> fst (getAudioFeatures e mbid tr) = None) \<and>
   (\<forall>status body. abFetch e tr mbid = Response status body \<and> \<not> responseOk status
       \<longrightarrow> fst (getAudioFeatures e mbid tr) = None) \<and>
   (\<forall>status. abFetch e tr mbid = Response status None \<longrightarrow> fst (getAudioFeatures e mbid tr) = None) \<and>
   (\<forall>status doc. abFetch e tr mbid = Response status (Some doc) \<and> responseOk status
       \<longrightarrow> fst (getAudioFeatures e mbid tr) = Some doc)"
proof (intro conjI allI impI)
  show "snd (getAudioFeatures e mbid tr) = tr @ [FeatureFetch mbid]"
    by (rule getAudioFeatures_trace)
next
  fix body assume "abFetch e tr mbid = Response 404 body"
  then show "fst (getAudioFeatures e mbid tr) = None"
    by (simp add: getAudioFeatures_result responseOk_def)
next
  fix err assume "abFetch e tr mbid = Rejected err"
  then show "fst (getAudioFeatures e mbid tr) = None"
    by (simp add: getAudioFeatures_result)
next
  fix status body assume "abFetch e tr mbid = Response status body \<and> \<not> responseOk status"
  then show "fst (getAudioFeatures e mbid tr) = None"
    by (simp add: getAudioFeatures_result)
next
  fix status assume "abFetch e tr mbid = Response status None"
  then show "fst (getAudioFeatures e mbid tr) = None"
    by (simp add: getAudioFeatures_result)
next
  fix status doc assume "abFetch e tr mbid = Response status (Some doc) \<and> responseOk status"
  then show "fst (getAudioFeatures e mbid tr) = Some doc"
    by (simp add: getAudioFeatures_result)
qed

theorem C8_getAudioFeatures_single_attempt_witness:
  "abFetch rateLimitedServices [] ''m'' = Response 404 None \<and> \<not> responseOk 404 \<and>
   getAudioFeatures rateLimitedServices ''m'' [] = (None, [FeatureFetch ''m'']) \<and>
   abFetch mixedFailureServices [] ''m'' = Rejected AbortError \<and>
   getAudioFeatures mixedFailureServices ''m'' [] = (None, [FeatureFetch ''m'']) \<and>
   abFetch emptyResultServices [] ''m'' = Response 200 None \<and>
   getAudioFeatures emptyResultServices ''m'' [] = (None, [FeatureFetch ''m'']) \<and>
   abFetch healthyServices [] ''m'' = Response 200 (Some exampleDoc) \<and> responseOk 200 \<and>
   getAudioFeatures healthyServices ''m'' [] = (Some exampleDoc, [FeatureFetch ''m''])"
proof -
  have a1: "abFetch rateLimitedServices [] ''m'' = Response 404 None"
    by (simp add: rateLimitedServices_def)
  have a2: "abFetch mixedFailureServices [] ''m'' = Rejected AbortError"
    by (simp add: mixedFailureServices_def)
  have a3: "abFetch emptyResultServices [] ''m'' = Response 200 None"
    by (simp add: emptyResultServices_def)
  have a4: "abFetch healthyServices [] ''m'' = Response 200 (Some exampleDoc)"
    by (simp add: healthyServices_def)
  have ok: "\<not> responseOk 404" "responseOk 200" by (simp_all add: responseOk_def)
  from C8_getAudioFeatures_single_attempt [of rateLimitedServices "''m''" "[]"] a1 ok(1)
  have r1: "getAudioFeatures rateLimitedServices ''m'' [] = (None, [FeatureFetch ''m''])"
    by (simp add: prod_eq_iff)
  from C8_getAudioFeatures_single_attempt [of mixedFailureServices "''m''" "[]"] a2
  have r2: "getAudioFeatures mixedFailureServices ''m'' [] = (None, [FeatureFetch ''m''])"
    by (simp add: prod_eq_iff)
  from C8_getAudioFeatures_single_attempt [of emptyResultServices "''m''" "[]"] a3
  have r3: "getAudioFeatures emptyResultServices ''m'' [] = (None, [FeatureFetch ''m''])"
    by (simp add: prod_eq_iff)
  from C8_getAudioFeatures_single_attempt [of healthyServices "''m''" "[]"] a4 ok(2)
  have r4: "getAudioFeatures healthyServices ''m'' [] = (Some exampleDoc, [FeatureFetch ''m''])"
    by (simp add: prod_eq_iff)
  from a1 a2 a3 a4 ok r1 r2 r3 r4 show ?thesis by blast
qed

lemma aggregateFeatures_Nil: "aggregateFeatures [] = emptyFeatures"
  by (simp add: aggregateFeatures_def emptyFeatures_def collectAll_def mean_def std_def variance_def
      meanVector_def varianceMatrix_def getDominantPitches_def tempoRange_def)

lemma features_extract:
  "features (fst (extractFeaturesFromSongs e songs tr))
     = Some (aggregateFeatures (fst (processSongs e songs tr)))"
  by (cases "processSongs e songs tr")
     (simp add: extractFeaturesFromSongs_def aggregateFeatures_Nil)

lemma processedCount_extract:
  "processedCount (fst (extractFeaturesFromSongs e songs tr)) = fst (snd (processSongs e songs tr))"
  by (cases "processSongs e songs tr") (simp add: extractFeaturesFromSongs_def)

lemma trace_extract:
  "snd (extractFeaturesFromSongs e songs tr) = snd (snd (processSongs e songs tr))"
  by (cases "processSongs e songs tr") (simp add: extractFeaturesFromSongs_def)

lemma songStep_count: "fst (snd (songStep e song (docs, n, tr))) = n + 1"
  by (simp add: songStep_def split: prod.splits option.splits)

lemma searchRecording_searched:
  "set (searchedSongs (snd (searchRecording e a t tr))) = insert (a, t) (set (searchedSongs tr))"
proof -
  obtain n where "1 \<le> n"
    "searchedSongs (snd (searchLoop e a t 1 tr)) = searchedSongs tr @ replicate n (a, t)"
    using searchLoop_searched [of 1 e a t tr] by (auto simp: maxRetries_def)
  then show ?thesis by (auto simp: searchRecording_def)
qed

lemma getAudioFeatures_traceD:
  "getAudioFeatures e m tr = (x, tr2) \<Longrightarrow> tr2 = tr @ [FeatureFetch m]"
  using getAudioFeatures_trace [of e m tr] by simp

lemma songStep_trace:
  "\<exists>ms. snd (snd (songStep e song (docs, n, tr)))
          = snd (searchRecording e (artist song) (title song) tr) @ map FeatureFetch ms"
proof -
  obtain r tr1 where sr: "searchRecording e (artist song) (title song) tr = (r, tr1)"
    by (cases "searchRecording e (artist song) (title song) tr")
  show ?thesis
  proof (cases "r = None \<or> r = Some []")
    case True
    with sr have "snd (snd (songStep e song (docs, n, tr))) = tr1 @ map FeatureFetch []"
      by (auto simp: songStep_def)
    with sr show ?thesis by (metis snd_conv)
  next
    case False
    then obtain m where m: "r = Some m" "m \<noteq> []" by auto
    obtain x tr2 where ga: "getAudioFeatures e m tr1 = (x, tr2)"
      by (cases "getAudioFeatures e m tr1")
    then have "tr2 = tr1 @ [FeatureFetch m]" by (rule getAudioFeatures_traceD)
    with sr m ga have "snd (snd (songStep e song (docs, n, tr))) = tr1 @ map FeatureFetch [m]"
      by (simp add: songStep_def split: option.splits)
    with sr show ?thesis by (metis snd_conv)
  qed
qed

lemma searchedSongs_FeatureFetch [simp]: "searchedSongs (map FeatureFetch ms) = []"
  by (induction ms) simp_all

lemma songStep_searched:
  "set (searchedSongs (snd (snd (songStep e song (docs, n, tr)))))
     = insert (artist song, title song) (set (searchedSongs tr))"
proof -
  obtain ms where "snd (snd (songStep e song (docs, n, tr)))
          = snd (searchRecording e (artist song) (title song) tr) @ map FeatureFetch ms"
    using songStep_trace by blast
  then show ?thesis by (simp add: searchRecording_searched)
qed

lemma fold_songStep:
  "fst (snd (fold (songStep e) xs (docs, n, tr))) = n + length xs \<and>
   set (searchedSongs (snd (snd (fold (songStep e) xs (docs, n, tr)))))
     = set (searchedSongs tr) \<union> (\<lambda>s. (artist s, title s)) ` set xs"
proof (induction xs arbitrary: docs n tr)
  case Nil
  then show ?case by simp
next
  case (Cons x xs)
  obtain docs' n' tr' where st: "songStep e x (docs, n, tr) = (docs', n', tr')"
    by (cases "songStep e x (docs, n, tr)")
  have n': "n' = n + 1" using songStep_count [of e x docs n tr] st by simp
  have t': "set (searchedSongs tr') = insert (artist x, title x) (set (searchedSongs tr))"
    using songStep_searched [of e x docs n tr] st by simp
  from Cons.IH [of docs' n' tr'] n' t' st show ?case by auto
qed

lemma processedCount_min:
  "processedCount (fst (extractFeaturesFromSongs e songs tr)) = min (length songs) 500"
  by (simp add: processedCount_extract processSongs_def fold_songStep)

text \<open>
  C2. Whatever the services answer, processedCount is min(length of the input, 500): the
  body of the loop adds exactly 1 for every song, resolved or not. The call behaves as the
  call on the first 500 songs, and the songs that requests to MusicBrainz are made for are
  those first 500. For 600 songs processedCount is 500.
\<close>

theorem C2_batch_cap:
  "processedCount (fst (extractFeaturesFromSongs e songs tr)) = min (length songs) 500 \<and>
   extractFeaturesFromSongs e songs tr = extractFeaturesFromSongs e (take 500 songs) tr \<and>
   set (searchedSongs (snd (extractFeaturesFromSongs e songs tr)))
     = set (searchedSongs tr) \<union> (\<lambda>s. (artist s, title s)) ` set (take 500 songs) \<and>
   fst (snd (songStep e song (docs, n, tr))) = n + 1 \<and>
   processedCount (fst (extractFeaturesFromSongs e (replicate 600 song) tr)) = 500"
proof (intro conjI)
  show "processedCount (fst (extractFeaturesFromSongs e songs tr)) = min (length songs) 500"
    by (rule processedCount_min)
  show "extractFeaturesFromSongs e songs tr = extractFeaturesFromSongs e (take 500 songs) tr"
    by (simp add: extractFeaturesFromSongs_def processSongs_def)
  show "set (searchedSongs (snd (extractFeaturesFromSongs e songs tr)))
     = set (searchedSongs tr) \<union> (\<lambda>s. (artist s, title s)) ` set (take 500 songs)"
    by (simp add: trace_extract processSongs_def fold_songStep)
  show "fst (snd (songStep e song (docs, n, tr))) = n + 1" by (rule songStep_count)
  have "processedCount (fst (extractFeaturesFromSongs e (replicate 600 song) tr))
          = min (length (replicate 600 song)) 500"
    by (rule processedCount_min)
  then show "processedCount (fst (extractFeaturesFromSongs e (replicate 600 song) tr)) = 500"
    by simp
qed

theorem C2_batch_cap_witness:
  "processedCount (fst (extractFeaturesFromSongs rateLimitedServices
      (replicate 600 \<lparr> artist = ''a'', title = ''t'' \<rparr>) [])) = 500 \<and>
   processedCount (fst (extractFeaturesFromSongs healthyServices
      [\<lparr> artist = ''a'', title = ''t'' \<rparr>, \<lparr> artist = ''b'', title = ''u'' \<rparr>] [])) = 2"
  using C2_batch_cap [of rateLimitedServices "replicate 600 \<lparr> artist = ''a'', title = ''t'' \<rparr>" "[]",
      THEN conjunct1]
    C2_batch_cap [of healthyServices "[\<lparr> artist = ''a'', title = ''t'' \<rparr>, \<lparr> artist = ''b'', title = ''u'' \<rparr>]" "[]",
      THEN conjunct1]
  by simp

subsection \<open>Claims about searchRecording\<close>

text \<open>
  C9. When the response to an attempt has a status in 200..299 and a body with no
  recordings (an empty list, or no list at all), the loop returns null at that attempt:
  the events are the delay before the request and the request, with no wait and no further
  request after them. For the first attempt this is the result of searchRecording.
\<close>

theorem C9_empty_result_no_retry:
  assumes "mbFetch e (delay RATE_LIMIT_DELAY tr) a t = Response status (Some data)"
    and "responseOk status"
    and "recordings data = Some [] \<or> recordings data = None"
    and "attempt \<le> maxRetries"
  shows "searchLoop e a t attempt tr = (None, tr @ [Delay RATE_LIMIT_DELAY, SearchFetch a t]) \<and>
         (attempt = 1 \<longrightarrow>
            searchRecording e a t tr = (None, tr @ [Delay RATE_LIMIT_DELAY, SearchFetch a t]))"
  using searchLoop_miss [OF assms] by (auto simp: searchRecording_def)

theorem C9_empty_result_no_retry_witness:
  "mbFetch emptyResultServices (delay RATE_LIMIT_DELAY []) ''a'' ''t''
      = Response 200 (Some \<lparr> recordings = Some [] \<rparr>) \<and>
   responseOk 200 \<and> (1::nat) \<le> maxRetries \<and>
   searchRecording emptyResultServices ''a'' ''t'' [] = (None, [Delay 1000, SearchFetch ''a'' ''t''])"
proof -
  have h1: "mbFetch emptyResultServices (delay RATE_LIMIT_DELAY []) ''a'' ''t''
      = Response 200 (Some \<lparr> recordings = Some [] \<rparr>)"
    by (simp add: emptyResultServices_def)
  have h2: "responseOk 200" by (simp add: responseOk_def)
  have h3: "recordings \<lparr> recordings = Some [] \<rparr> = Some [] \<or> recordings \<lparr> recordings = Some [] \<rparr> = None"
    by simp
  have h4: "(1::nat) \<le> maxRetries" by (simp add: maxRetries_def)
  from C9_empty_result_no_retry [OF h1 h2 h3 h4]
  have "searchRecording emptyResultServices ''a'' ''t'' [] = (None, [Delay 1000, SearchFetch ''a'' ''t''])"
    by (simp add: RATE_LIMIT_DELAY_def)
  with h1 h2 h4 show ?thesis by blast
qed

lemma rateLimited_failed: "rateLimited r \<Longrightarrow> searchFailed r"
  by (auto simp: rateLimited_def searchFailed_def split: fetch_result.splits)

lemma searchLoop_step:
  assumes "searchFailed (mbFetch e (delay RATE_LIMIT_DELAY tr) a t)" and "attempt < maxRetries"
  shows "\<exists>w \<in> {waitTime attempt, retryWait attempt}.
           searchLoop e a t attempt tr
             = searchLoop e a t (attempt + 1) (tr @ [Delay RATE_LIMIT_DELAY, SearchFetch a t, Delay w])"
proof (cases "rateLimited (mbFetch e (delay RATE_LIMIT_DELAY tr) a t)")
  case True
  from searchLoop_429 [OF True assms(2)] show ?thesis by blast
next
  case False
  from searchLoop_failed [OF assms(1) False assms(2)] show ?thesis by blast
qed

lemma searchRecording_all_failed:
  assumes "\<forall>tr. searchFailed (mbFetch e tr a t)"
  shows "\<exists>w1 \<in> {waitTime 1, retryWait 1}. \<exists>w2 \<in> {waitTime 2, retryWait 2}.
           searchRecording e a t tr0
             = (None, tr0 @ [Delay RATE_LIMIT_DELAY, SearchFetch a t, Delay w1,
                             Delay RATE_LIMIT_DELAY, SearchFetch a t, Delay w2,
                             Delay RATE_LIMIT_DELAY, SearchFetch a t])"
proof -
  have f: "\<And>tr. searchFailed (mbFetch e (delay RATE_LIMIT_DELAY tr) a t)" using assms by blast
  have lt: "1 < maxRetries" "2 < maxRetries" "(3::nat) = maxRetries" by (simp_all add: maxRetries_def)
  from searchLoop_step [OF f lt(1)] obtain w1 where w1: "w1 \<in> {waitTime 1, retryWait 1}"
    "searchLoop e a t 1 tr0
       = searchLoop e a t 2 (tr0 @ [Delay RATE_LIMIT_DELAY, SearchFetch a t, Delay w1])"
    by (auto simp: numeral_2_eq_2)
  let ?tr1 = "tr0 @ [Delay RATE_LIMIT_DELAY, SearchFetch a t, Delay w1]"
  from searchLoop_step [OF f lt(2), of ?tr1] obtain w2 where w2: "w2 \<in> {waitTime 2, retryWait 2}"
    "searchLoop e a t 2 ?tr1
       = searchLoop e a t 3 (?tr1 @ [Delay RATE_LIMIT_DELAY, SearchFetch a t, Delay w2])"
    by (auto simp: numeral_3_eq_3 numeral_2_eq_2)
  let ?tr2 = "?tr1 @ [Delay RATE_LIMIT_DELAY, SearchFetch a t, Delay w2]"
  have "searchLoop e a t 3 ?tr2 = (None, ?tr2 @ [Delay RATE_LIMIT_DELAY, SearchFetch a t])"
    by (rule searchLoop_final [OF f lt(3)])
  with w1 w2 show ?thesis
    unfolding searchRecording_def by (intro bexI [of _ w1] bexI [of _ w2]) simp_all
qed

lemma searchRecording_all_429:
  assumes "\<forall>tr. rateLimited (mbFetch e tr a t)"
  shows "searchRecording e a t tr0
             = (None, tr0 @ [Delay RATE_LIMIT_DELAY, SearchFetch a t, Delay (waitTime 1),
                             Delay RATE_LIMIT_DELAY, SearchFetch a t, Delay (waitTime 2),
                             Delay RATE_LIMIT_DELAY, SearchFetch a t])"
proof -
  have r: "\<And>tr. rateLimited (mbFetch e (delay RATE_LIMIT_DELAY tr) a t)" using assms by blast
  have lt: "1 < maxRetries" "2 < maxRetries" "(3::nat) = maxRetries" by (simp_all add: maxRetries_def)
  let ?tr1 = "tr0 @ [Delay RATE_LIMIT_DELAY, SearchFetch a t, Delay (waitTime 1)]"
  let ?tr2 = "?tr1 @ [Delay RATE_LIMIT_DELAY, SearchFetch a t, Delay (waitTime 2)]"
  have "searchLoop e a t 1 tr0 = searchLoop e a t 2 ?tr1"
    using searchLoop_429 [OF r lt(1), of tr0] by (simp add: numeral_2_eq_2)
  also have "\<dots> = searchLoop e a t 3 ?tr2"
    using searchLoop_429 [OF r lt(2), of ?tr1] by (simp add: numeral_3_eq_3 numeral_2_eq_2)
  also have "\<dots> = (None, ?tr2 @ [Delay RATE_LIMIT_DELAY, SearchFetch a t])"
    by (rule searchLoop_final [OF rateLimited_failed [OF r] lt(3)])
  finally show ?thesis by (simp add: searchRecording_def)
qed

lemma searchRecording_all_other:
  assumes "\<forall>tr. searchFailed (mbFetch e tr a t) \<and> \<not> rateLimited (mbFetch e tr a t)"
  shows "searchRecording e a t tr0
             = (None, tr0 @ [Delay RATE_LIMIT_DELAY, SearchFetch a t, Delay (retryWait 1),
                             Delay RATE_LIMIT_DELAY, SearchFetch a t, Delay (retryWait 2),
                             Delay RATE_LIMIT_DELAY, SearchFetch a t])"
proof -
  have f: "\<And>tr. searchFailed (mbFetch e (delay RATE_LIMIT_DELAY tr) a t)" using assms by blast
  have r: "\<And>tr. \<not> rateLimited (mbFetch e (delay RATE_LIMIT_DELAY tr) a t)" using assms by blast
  have lt: "1 < maxRetries" "2 < maxRetries" "(3::nat) = maxRetries" by (simp_all add: maxRetries_def)
  let ?tr1 = "tr0 @ [Delay RATE_LIMIT_DELAY, SearchFetch a t, Delay (retryWait 1)]"
  let ?tr2 = "?tr1 @ [Delay RATE_LIMIT_DELAY, SearchFetch a t, Delay (retryWait 2)]"
  have "searchLoop e a t 1 tr0 = searchLoop e a t 2 ?tr1"
    using searchLoop_failed [OF f r lt(1), of tr0] by (simp add: numeral_2_eq_2)
  also have "\<dots> = searchLoop e a t 3 ?tr2"
    using searchLoop_failed [OF f r lt(2), of ?tr1] by (simp add: numeral_3_eq_3 numeral_2_eq_2)
  also have "\<dots> = (None, ?tr2 @ [Delay RATE_LIMIT_DELAY, SearchFetch a t])"
    by (rule searchLoop_final [OF f lt(3)])
  finally show ?thesis by (simp add: searchRecording_def)
qed

lemma searchRecording_cap:
  "\<exists>n. 1 \<le> n \<and> n \<le> maxRetries \<and>
       searchedSongs (snd (searchRecording e a t tr0)) = searchedSongs tr0 @ replicate n (a, t)"
  using searchLoop_searched [of 1 e a t tr0]
  by (auto simp: searchRecording_def maxRetries_def)

text \<open>
  C3, as stated, fails where the kinds of failure mix. With a 429 response to the first
  attempt and a 500 response to the second, the wait after the first attempt is
  1 * 2000 ms and the wait after the second is 2 * 1000 ms: the waits are 2000, 2000, and
  do not strictly increase with the attempt number.
\<close>

theorem C3_backoff_not_increasing_counterexample:
  "searchRecording mixedFailureServices ''a'' ''t'' []
     = (None, [Delay 1000, SearchFetch ''a'' ''t'', Delay 2000,
               Delay 1000, SearchFetch ''a'' ''t'', Delay 2000,
               Delay 1000, SearchFetch ''a'' ''t'']) \<and>
   backoffDelays (snd (searchRecording mixedFailureServices ''a'' ''t'' [])) = [2000, 2000] \<and>
   \<not> sorted_wrt (<) (backoffDelays (snd (searchRecording mixedFailureServices ''a'' ''t'' [])))"
  by code_simp

text \<open>
  C3, amended. searchRecording makes at least one and at most maxRetries = 3 requests for
  a song. After a failed attempt that is not the last, the loop waits and goes on to the
  next attempt: attempt * 2000 ms after a 429 response, attempt * 1000 ms after any other
  failure; each of the two schedules strictly increases with the attempt number. A failure
  of the last attempt gives null. So three 429 responses give null after waits of 2000 and
  4000 ms, three other failures give null after waits of 1000 and 2000 ms, and whenever all
  three attempts fail the result is null after exactly three requests. The result is a
  value in every case: nothing is thrown to the caller.
\<close>

theorem C3_bounded_retry_backoff_per_kind:
  "(\<exists>n. 1 \<le> n \<and> n \<le> maxRetries \<and> maxRetries = 3 \<and>
       searchedSongs (snd (searchRecording e a t tr0)) = searchedSongs tr0 @ replicate n (a, t)) \<and>
   (\<forall>attempt tr. attempt < maxRetries \<and> rateLimited (mbFetch e (delay RATE_LIMIT_DELAY tr) a t) \<longrightarrow>
      searchLoop e a t attempt tr
        = searchLoop e a t (attempt + 1)
            (tr @ [Delay RATE_LIMIT_DELAY, SearchFetch a t, Delay (waitTime attempt)])) \<and>
   (\<forall>attempt tr. attempt < maxRetries \<and> searchFailed (mbFetch e (delay RATE_LIMIT_DELAY tr) a t) \<and>
        \<not> rateLimited (mbFetch e (delay RATE_LIMIT_DELAY tr) a t) \<longrightarrow>
      searchLoop e a t attempt tr
        = searchLoop e a t (attempt + 1)
            (tr @ [Delay RATE_LIMIT_DELAY, SearchFetch a t, Delay (retryWait attempt)])) \<and>
   (\<forall>tr. searchFailed (mbFetch e (delay RATE_LIMIT_DELAY tr) a t) \<longrightarrow>
      searchLoop e a t maxRetries tr = (None, tr @ [Delay RATE_LIMIT_DELAY, SearchFetch a t])) \<and>
   (\<forall>j k. j < k \<longrightarrow> waitTime j < waitTime k \<and> retryWait j < retryWait k) \<and>
   ((\<forall>tr. rateLimited (mbFetch e tr a t)) \<longrightarrow>
      searchRecording e a t tr0
        = (None, tr0 @ [Delay RATE_LIMIT_DELAY, SearchFetch a t, Delay (waitTime 1),
                        Delay RATE_LIMIT_DELAY, SearchFetch a t, Delay (waitTime 2),
                        Delay RATE_LIMIT_DELAY, SearchFetch a t])) \<and>
   ((\<forall>tr. searchFailed (mbFetch e tr a t) \<and> \<not> rateLimited (mbFetch e tr a t)) \<longrightarrow>
      searchRecording e a t tr0
        = (None, tr0 @ [Delay RATE_LIMIT_DELAY, SearchFetch a t, Delay (retryWait 1),
                        Delay RATE_LIMIT_DELAY, SearchFetch a t, Delay (retryWait 2),
                        Delay RATE_LIMIT_DELAY, SearchFetch a t])) \<and>
   ((\<forall>tr. searchFailed (mbFetch e tr a t)) \<longrightarrow>
      fst (searchRecording e a t tr0) = None \<and>
      searchedSongs (snd (searchRecording e a t tr0)) = searchedSongs tr0 @ replicate 3 (a, t))"
proof (intro conjI allI impI)
  show "\<exists>n. 1 \<le> n \<and> n \<le> maxRetries \<and> maxRetries = 3 \<and>
       searchedSongs (snd (searchRecording e a t tr0)) = searchedSongs tr0 @ replicate n (a, t)"
    using searchRecording_cap [of e a t tr0] by (auto simp: maxRetries_def)
next
  fix attempt tr
  assume "attempt < maxRetries \<and> rateLimited (mbFetch e (delay RATE_LIMIT_DELAY tr) a t)"
  then show "searchLoop e a t attempt tr
        = searchLoop e a t (attempt + 1)
            (tr @ [Delay RATE_LIMIT_DELAY, SearchFetch a t, Delay (waitTime attempt)])"
    using searchLoop_429 by blast
next
  fix attempt tr
  assume "attempt < maxRetries \<and> searchFailed (mbFetch e (delay RATE_LIMIT_DELAY tr) a t) \<and>
        \<not> rateLimited (mbFetch e (delay RATE_LIMIT_DELAY tr) a t)"
  then show "searchLoop e a t attempt tr
        = searchLoop e a t (attempt + 1)
            (tr @ [Delay RATE_LIMIT_DELAY, SearchFetch a t, Delay (retryWait attempt)])"
    using searchLoop_failed by blast
next
  fix tr
  assume "searchFailed (mbFetch e (delay RATE_LIMIT_DELAY tr) a t)"
  then show "searchLoop e a t maxRetries tr = (None, tr @ [Delay RATE_LIMIT_DELAY, SearchFetch a t])"
    by (rule searchLoop_final) simp
next
  fix j k :: nat
  assume "j < k"
  then show "waitTime j < waitTime k" by (simp add: waitTime_def)
  from \<open>j < k\<close> show "retryWait j < retryWait k" by (simp add: retryWait_def)
next
  assume "\<forall>tr. rateLimited (mbFetch e tr a t)"
  then show "searchRecording e a t tr0
        = (None, tr0 @ [Delay RATE_LIMIT_DELAY, SearchFetch a t, Delay (waitTime 1),
                        Delay RATE_LIMIT_DELAY, SearchFetch a t, Delay (waitTime 2),
                        Delay RATE_LIMIT_DELAY, SearchFetch a t])"
    by (rule searchRecording_all_429)
next
  assume "\<forall>tr. searchFailed (mbFetch e tr a t) \<and> \<not> rateLimited (mbFetch e tr a t)"
  then show "searchRecording e a t tr0
        = (None, tr0 @ [Delay RATE_LIMIT_DELAY, SearchFetch a t, Delay (retryWait 1),
                        Delay RATE_LIMIT_DELAY, SearchFetch a t, Delay (retryWait 2),
                        Delay RATE_LIMIT_DELAY, SearchFetch a t])"
    by (rule searchRecording_all_other)
next
  assume af: "\<forall>tr. searchFailed (mbFetch e tr a t)"
  from searchRecording_all_failed [OF af, of tr0]
  show "fst (searchRecording e a t tr0) = None" by auto
  from searchRecording_all_failed [OF af, of tr0]
  show "searchedSongs (snd (searchRecording e a t tr0)) = searchedSongs tr0 @ replicate 3 (a, t)"
    by (auto simp: numeral_3_eq_3)
qed

theorem C3_bounded_retry_backoff_per_kind_witness:
  "(\<forall>tr. rateLimited (mbFetch rateLimitedServices tr ''a'' ''t'')) \<and>
   searchRecording rateLimitedServices ''a'' ''t'' []
     = (None, [Delay 1000, SearchFetch ''a'' ''t'', Delay 2000,
               Delay 1000, SearchFetch ''a'' ''t'', Delay 4000,
               Delay 1000, SearchFetch ''a'' ''t'']) \<and>
   (\<forall>tr. searchFailed (mbFetch unavailableServices tr ''a'' ''t'') \<and>
         \<not> rateLimited (mbFetch unavailableServices tr ''a'' ''t'')) \<and>
   searchRecording unavailableServices ''a'' ''t'' []
     = (None, [Delay 1000, SearchFetch ''a'' ''t'', Delay 1000,
               Delay 1000, SearchFetch ''a'' ''t'', Delay 2000,
               Delay 1000, SearchFetch ''a'' ''t'']) \<and>
   (1::nat) < maxRetries \<and>
   searchLoop rateLimitedServices ''a'' ''t'' 1 []
     = searchLoop rateLimitedServices ''a'' ''t'' 2 [Delay 1000, SearchFetch ''a'' ''t'', Delay 2000] \<and>
   searchLoop unavailableServices ''a'' ''t'' 1 []
     = searchLoop unavailableServices ''a'' ''t'' 2 [Delay 1000, SearchFetch ''a'' ''t'', Delay 1000] \<and>
   searchLoop unavailableServices ''a'' ''t'' maxRetries [] = (None, [Delay 1000, SearchFetch ''a'' ''t'']) \<and>
   (1::nat) < 2 \<and> waitTime 1 < waitTime 2 \<and> retryWait 1 < retryWait 2 \<and>
   fst (searchRecording mixedFailureServices ''a'' ''t'' []) = None \<and>
   searchedSongs (snd (searchRecording mixedFailureServices ''a'' ''t'' []))
     = [(''a'', ''t''), (''a'', ''t''), (''a'', ''t'')]"
proof -
  have h1: "\<forall>tr. rateLimited (mbFetch rateLimitedServices tr ''a'' ''t'')"
    by (simp add: rateLimitedServices_def rateLimited_def)
  have h2: "\<forall>tr. searchFailed (mbFetch unavailableServices tr ''a'' ''t'') \<and>
         \<not> rateLimited (mbFetch unavailableServices tr ''a'' ''t'')"
    by (simp add: unavailableServices_def rateLimited_def searchFailed_def)
  have h3: "\<forall>tr. searchFailed (mbFetch mixedFailureServices tr ''a'' ''t'')"
    by (simp add: mixedFailureServices_def searchFailed_def responseOk_def)
  have h4: "(1::nat) < maxRetries" by (simp add: maxRetries_def)
  have h5: "(1::nat) < 2" by simp
  note c = C3_bounded_retry_backoff_per_kind
  from c [of rateLimitedServices "''a''" "''t''" "[]"] h1
  have r1: "searchRecording rateLimitedServices ''a'' ''t'' []
     = (None, [Delay 1000, SearchFetch ''a'' ''t'', Delay 2000,
               Delay 1000, SearchFetch ''a'' ''t'', Delay 4000,
               Delay 1000, SearchFetch ''a'' ''t''])"
    by (simp add: RATE_LIMIT_DELAY_def waitTime_def)
  from c [of unavailableServices "''a''" "''t''" "[]"] h2
  have r2: "searchRecording unavailableServices ''a'' ''t'' []
     = (None, [Delay 1000, SearchFetch ''a'' ''t'', Delay 1000,
               Delay 1000, SearchFetch ''a'' ''t'', Delay 2000,
               Delay 1000, SearchFetch ''a'' ''t''])"
    by (simp add: RATE_LIMIT_DELAY_def retryWait_def)
  from c [of rateLimitedServices "''a''" "''t''" "[]"] h1 h4
  have "searchLoop rateLimitedServices ''a'' ''t'' 1 []
     = searchLoop rateLimitedServices ''a'' ''t'' (1 + 1)
         ([] @ [Delay RATE_LIMIT_DELAY, SearchFetch ''a'' ''t'', Delay (waitTime 1)])"
    by blast
  then have r3: "searchLoop rateLimitedServices ''a'' ''t'' 1 []
     = searchLoop rateLimitedServices ''a'' ''t'' 2 [Delay 1000, SearchFetch ''a'' ''t'', Delay 2000]"
    by (simp add: RATE_LIMIT_DELAY_def waitTime_def numeral_2_eq_2)
  from c [of unavailableServices "''a''" "''t''" "[]"] h2 h4
  have "searchLoop unavailableServices ''a'' ''t'' 1 []
     = searchLoop unavailableServices ''a'' ''t'' (1 + 1)
         ([] @ [Delay RATE_LIMIT_DELAY, SearchFetch ''a'' ''t'', Delay (retryWait 1)])"
    by blast
  then have r4: "searchLoop unavailableServices ''a'' ''t'' 1 []
     = searchLoop unavailableServices ''a'' ''t'' 2 [Delay 1000, SearchFetch ''a'' ''t'', Delay 1000]"
    by (simp add: RATE_LIMIT_DELAY_def retryWait_def numeral_2_eq_2)
  from c [of unavailableServices "''a''" "''t''" "[]"] h2
  have "searchLoop unavailableServices ''a'' ''t'' maxRetries []
     = (None, [] @ [Delay RATE_LIMIT_DELAY, SearchFetch ''a'' ''t''])"
    by blast
  then have r5: "searchLoop unavailableServices ''a'' ''t'' maxRetries []
     = (None, [Delay 1000, SearchFetch ''a'' ''t''])"
    by (simp add: RATE_LIMIT_DELAY_def)
  from c [of rateLimitedServices "''a''" "''t''" "[]"] h5
  have r6: "waitTime 1 < waitTime 2 \<and> retryWait 1 < retryWait 2" by blast
  from c [of mixedFailureServices "''a''" "''t''" "[]"] h3
  have "fst (searchRecording mixedFailureServices ''a'' ''t'' []) = None \<and>
      searchedSongs (snd (searchRecording mixedFailureServices ''a'' ''t'' []))
        = searchedSongs [] @ replicate 3 (''a'', ''t'')"
    by blast
  then have r7: "fst (searchRecording mixedFailureServices ''a'' ''t'' []) = None \<and>
      searchedSongs (snd (searchRecording mixedFailureServices ''a'' ''t'' []))
        = [(''a'', ''t''), (''a'', ''t''), (''a'', ''t'')]"
    by (simp add: numeral_3_eq_3)
  from h1 h2 h4 h5 r1 r2 r3 r4 r5 r6 r7 show ?thesis by blast
qed

subsection \<open>Claims about extractFeaturesFromSongs\<close>

lemma tempo_aggregate:
  "tempo (aggregateFeatures docs)
     = \<lparr> tempo_mean = mean (tempos (collectAll docs)), tempo_std = std (tempos (collectAll docs)),
         tempo_range = tempoRange (tempos (collectAll docs)) \<rparr>"
  by (simp add: aggregateFeatures_def Let_def)

lemma mfcc_aggregate:
  "mfcc (aggregateFeatures docs)
     = \<lparr> mean_vector = meanVector (mfccs (collectAll docs)),
         variance_matrix = varianceMatrix (mfccs (collectAll docs)) \<rparr>"
  by (simp add: aggregateFeatures_def Let_def)

lemma chroma_aggregate:
  "chroma (aggregateFeatures docs)
     = \<lparr> dominant_pitches = getDominantPitches (chromas (collectAll docs)),
         avg_profile = meanVector (chromas (collectAll docs)) \<rparr>"
  by (simp add: aggregateFeatures_def Let_def)

lemma spectral_aggregate:
  "spectral (aggregateFeatures docs)
     = \<lparr> avg_centroid = mean (centroids (collectAll docs)),
         flux_variance = variance (fluxes (collectAll docs)) \<rparr>"
  by (simp add: aggregateFeatures_def Let_def)

lemma rhythm_complexity_aggregate:
  "rhythm_complexity (aggregateFeatures docs) = mean (zeroCrossings (collectAll docs))"
  by (simp add: aggregateFeatures_def Let_def)

lemma processSongs_Nil: "processSongs e [] tr = ([], 0, tr)"
  by (simp add: processSongs_def)

text \<open>
  C1. Whatever the batch and whatever the services answer, the features of the result are
  a profile, never null. With docs the documents recovered in the run: where no document
  has a truthy bpm the tempo is mean 0, std 0, range [0, 0]; where none has an mfcc mean
  the mean vector and the variance matrix are empty; where none has a chroma vector the
  dominant pitches and the average profile are empty; the centroid average, the flux
  variance and the rhythm complexity are 0 where their arrays are empty. When no document
  was recovered the profile is the all-zero scaffold, and so it is for the empty batch.
  That every field is present is the type of the profile.
\<close>

theorem C1_extract_total_profile:
  "(\<exists>p. features (fst (extractFeaturesFromSongs e songs tr)) = Some p \<and>
        (tempos (collectAll (fst (processSongs e songs tr))) = [] \<longrightarrow>
           tempo p = \<lparr> tempo_mean = 0, tempo_std = 0, tempo_range = [0, 0] \<rparr>) \<and>
        (mfccs (collectAll (fst (processSongs e songs tr))) = [] \<longrightarrow>
           mfcc p = \<lparr> mean_vector = [], variance_matrix = [] \<rparr>) \<and>
        (chromas (collectAll (fst (processSongs e songs tr))) = [] \<longrightarrow>
           chroma p = \<lparr> dominant_pitches = [], avg_profile = [] \<rparr>) \<and>
        (centroids (collectAll (fst (processSongs e songs tr))) = [] \<longrightarrow>
           avg_centroid (spectral p) = 0) \<and>
        (fluxes (collectAll (fst (processSongs e songs tr))) = [] \<longrightarrow>
           flux_variance (spectral p) = 0) \<and>
        (zeroCrossings (collectAll (fst (processSongs e songs tr))) = [] \<longrightarrow>
           rhythm_complexity p = 0) \<and>
        (fst (processSongs e songs tr) = [] \<longrightarrow> p = emptyFeatures)) \<and>
   extractFeaturesFromSongs e [] tr = (\<lparr> features = Some emptyFeatures, processedCount = 0 \<rparr>, tr)"
proof (intro conjI exI [of _ "aggregateFeatures (fst (processSongs e songs tr))"] impI)
  let ?docs = "fst (processSongs e songs tr)"
  show "features (fst (extractFeaturesFromSongs e songs tr)) = Some (aggregateFeatures ?docs)"
    by (rule features_extract)
  show "tempo (aggregateFeatures ?docs) = \<lparr> tempo_mean = 0, tempo_std = 0, tempo_range = [0, 0] \<rparr>"
    if "tempos (collectAll ?docs) = []"
    using that by (simp add: tempo_aggregate mean_def std_def tempoRange_def)
  show "mfcc (aggregateFeatures ?docs) = \<lparr> mean_vector = [], variance_matrix = [] \<rparr>"
    if "mfccs (collectAll ?docs) = []"
    using that by (simp add: mfcc_aggregate meanVector_def varianceMatrix_def)
  show "chroma (aggregateFeatures ?docs) = \<lparr> dominant_pitches = [], avg_profile = [] \<rparr>"
    if "chromas (collectAll ?docs) = []"
    using that by (simp add: chroma_aggregate meanVector_def getDominantPitches_def)
  show "avg_centroid (spectral (aggregateFeatures ?docs)) = 0"
    if "centroids (collectAll ?docs) = []"
    using that by (simp add: spectral_aggregate mean_def)
  show "flux_variance (spectral (aggregateFeatures ?docs)) = 0"
    if "fluxes (collectAll ?docs) = []"
    using that by (simp add: spectral_aggregate variance_def)
  show "rhythm_complexity (aggregateFeatures ?docs) = 0"
    if "zeroCrossings (collectAll ?docs) = []"
    using that by (simp add: rhythm_complexity_aggregate mean_def)
  show "aggregateFeatures ?docs = emptyFeatures" if "?docs = []"
    using that by (simp add: aggregateFeatures_Nil)
  show "extractFeaturesFromSongs e [] tr = (\<lparr> features = Some emptyFeatures, processedCount = 0 \<rparr>, tr)"
    by (simp add: extractFeaturesFromSongs_def processSongs_Nil)
qed

theorem C1_extract_total_profile_witness:
  "fst (processSongs rateLimitedServices
         [\<lparr> artist = ''A'', title = ''T'' \<rparr>, \<lparr> artist = ''B'', title = ''U'' \<rparr>] []) = [] \<and>
   features (fst (extractFeaturesFromSongs rateLimitedServices
         [\<lparr> artist = ''A'', title = ''T'' \<rparr>, \<lparr> artist = ''B'', title = ''U'' \<rparr>] []))
     = Some emptyFeatures \<and>
   collectAll (fst (processSongs healthyServices [\<lparr> artist = ''A'', title = ''T'' \<rparr>] []))
     = \<lparr> tempos = [120], mfccs = [], chromas = [], centroids = [], fluxes = [],
         zeroCrossings = [] \<rparr> \<and>
   (\<exists>p. features (fst (extractFeaturesFromSongs healthyServices
             [\<lparr> artist = ''A'', title = ''T'' \<rparr>] [])) = Some p \<and>
        mfcc p = \<lparr> mean_vector = [], variance_matrix = [] \<rparr> \<and>
        chroma p = \<lparr> dominant_pitches = [], avg_profile = [] \<rparr> \<and>
        spectral p = \<lparr> avg_centroid = 0, flux_variance = 0 \<rparr> \<and>
        rhythm_complexity p = 0)"
proof -
  let ?two = "[\<lparr> artist = ''A'', title = ''T'' \<rparr>, \<lparr> artist = ''B'', title = ''U'' \<rparr>]"
  let ?one = "[\<lparr> artist = ''A'', title = ''T'' \<rparr>]"
  have d0: "fst (processSongs rateLimitedServices ?two []) = []" by code_simp
  have d1: "fst (processSongs healthyServices ?one []) = [exampleDoc]" by code_simp
  have c1: "collectAll (fst (processSongs healthyServices ?one []))
     = \<lparr> tempos = [120], mfccs = [], chromas = [], centroids = [], fluxes = [],
         zeroCrossings = [] \<rparr>"
    unfolding d1
    by (simp add: collectAll_def collectStep_def exampleDoc_def pushNumber_def pushArray_def
        bpmOf_def mfccMeanOf_def chromaOf_def centroidOf_def fluxOf_def zeroCrossingOf_def)
  from C1_extract_total_profile [of rateLimitedServices ?two "[]"] d0
  have r0: "features (fst (extractFeaturesFromSongs rateLimitedServices ?two [])) = Some emptyFeatures"
    by auto
  from C1_extract_total_profile [of healthyServices ?one "[]"]
  obtain p where p: "features (fst (extractFeaturesFromSongs healthyServices ?one [])) = Some p"
    "mfccs (collectAll (fst (processSongs healthyServices ?one []))) = [] \<longrightarrow>
       mfcc p = \<lparr> mean_vector = [], variance_matrix = [] \<rparr>"
    "chromas (collectAll (fst (processSongs healthyServices ?one []))) = [] \<longrightarrow>
       chroma p = \<lparr> dominant_pitches = [], avg_profile = [] \<rparr>"
    "centroids (collectAll (fst (processSongs healthyServices ?one []))) = [] \<longrightarrow>
       avg_centroid (spectral p) = 0"
    "fluxes (collectAll (fst (processSongs healthyServices ?one []))) = [] \<longrightarrow>
       flux_variance (spectral p) = 0"
    "zeroCrossings (collectAll (fst (processSongs healthyServices ?one []))) = [] \<longrightarrow>
       rhythm_complexity p = 0"
    by blast
  from p(2-6) have q: "mfcc p = \<lparr> mean_vector = [], variance_matrix = [] \<rparr>"
    "chroma p = \<lparr> dominant_pitches = [], avg_profile = [] \<rparr>"
    "spectral p = \<lparr> avg_centroid = 0, flux_variance = 0 \<rparr>"
    "rhythm_complexity p = 0"
    unfolding c1 by simp_all
  from d0 r0 c1 p(1) q show ?thesis by blast
qed

subsection \<open>What a permutation of the documents leaves unchanged\<close>

lemma pushNumber_Nil: "pushNumber v [] = (case v of None \<Rightarrow> [] | Some x \<Rightarrow> if x \<noteq> 0 then [x] else [])"
  by (simp add: pushNumber_def split: option.splits)

lemma pushArray_Nil: "pushArray v [] = (case v of None \<Rightarrow> [] | Some xs \<Rightarrow> [xs])"
  by (simp add: pushArray_def split: option.splits)

lemma pushNumber_append: "pushNumber v arr = arr @ pushNumber v []"
  by (simp add: pushNumber_def split: option.splits)

lemma pushArray_append: "pushArray v arr = arr @ pushArray v []"
  by (simp add: pushArray_def split: option.splits)

lemma fold_collectStep:
  "fold collectStep docs c =
     \<lparr> tempos = tempos c @ concat (map (\<lambda>d. pushNumber (bpmOf d) []) docs),
       mfccs = mfccs c @ concat (map (\<lambda>d. pushArray (mfccMeanOf d) []) docs),
       chromas = chromas c @ concat (map (\<lambda>d. pushArray (chromaOf d) []) docs),
       centroids = centroids c @ concat (map (\<lambda>d. pushNumber (centroidOf d) []) docs),
       fluxes = fluxes c @ concat (map (\<lambda>d. pushNumber (fluxOf d) []) docs),
       zeroCrossings = zeroCrossings c @ concat (map (\<lambda>d. pushNumber (zeroCrossingOf d) []) docs) \<rparr>"
proof (induction docs arbitrary: c)
  case Nil
  then show ?case by simp
next
  case (Cons d docs)
  have step: "collectStep d c =
     \<lparr> tempos = tempos c @ pushNumber (bpmOf d) [],
       mfccs = mfccs c @ pushArray (mfccMeanOf d) [],
       chromas = chromas c @ pushArray (chromaOf d) [],
       centroids = centroids c @ pushNumber (centroidOf d) [],
       fluxes = fluxes c @ pushNumber (fluxOf d) [],
       zeroCrossings = zeroCrossings c @ pushNumber (zeroCrossingOf d) [] \<rparr>"
    unfolding collectStep_def
    using pushNumber_append pushArray_append by metis
  show ?case
    by (simp add: Cons.IH step)
qed

lemma collectAll_eq:
  "collectAll docs =
     \<lparr> tempos = concat (map (\<lambda>d. pushNumber (bpmOf d) []) docs),
       mfccs = concat (map (\<lambda>d. pushArray (mfccMeanOf d) []) docs),
       chromas = concat (map (\<lambda>d. pushArray (chromaOf d) []) docs),
       centroids = concat (map (\<lambda>d. pushNumber (centroidOf d) []) docs),
       fluxes = concat (map (\<lambda>d. pushNumber (fluxOf d) []) docs),
       zeroCrossings = concat (map (\<lambda>d. pushNumber (zeroCrossingOf d) []) docs) \<rparr>"
  by (simp add: collectAll_def fold_collectStep)












subsection \<open>Which fields enter the arrays\<close>

lemma sqrt_100: "sqrt 100 = 10"
  using real_sqrt_abs [of 10] by simp

lemma concat_pushNumber:
  "concat (map (\<lambda>d. pushNumber (f d) []) docs) = filter (\<lambda>b. b \<noteq> 0) (List.map_filter f docs)"
  by (induction docs) (simp_all add: pushNumber_Nil List.map_filter_simps split: option.splits)

lemma concat_pushArray:
  "concat (map (\<lambda>d. pushArray (f d) []) docs) = List.map_filter f docs"
  by (induction docs) (simp_all add: pushArray_Nil List.map_filter_simps split: option.splits)

lemma accessors_withoutBpm:
  "bpmOf (withoutBpm d) = None" "mfccMeanOf (withoutBpm d) = mfccMeanOf d"
  "chromaOf (withoutBpm d) = chromaOf d" "centroidOf (withoutBpm d) = centroidOf d"
  "fluxOf (withoutBpm d) = fluxOf d" "zeroCrossingOf (withoutBpm d) = zeroCrossingOf d"
  by (cases "rhythm d";
      simp add: withoutBpm_def bpmOf_def mfccMeanOf_def chromaOf_def centroidOf_def fluxOf_def
        zeroCrossingOf_def)+

lemma accessors_withoutCentroid:
  "centroidOf (withoutCentroid d) = None" "mfccMeanOf (withoutCentroid d) = mfccMeanOf d"
  "chromaOf (withoutCentroid d) = chromaOf d" "bpmOf (withoutCentroid d) = bpmOf d"
  "fluxOf (withoutCentroid d) = fluxOf d" "zeroCrossingOf (withoutCentroid d) = zeroCrossingOf d"
  by (cases "lowlevel d"; cases "Option.bind (lowlevel d) ll_spectral_centroid";
      simp add: withoutCentroid_def bpmOf_def mfccMeanOf_def chromaOf_def centroidOf_def fluxOf_def
        zeroCrossingOf_def)+

lemma accessors_withoutFlux:
  "fluxOf (withoutFlux d) = None" "mfccMeanOf (withoutFlux d) = mfccMeanOf d"
  "chromaOf (withoutFlux d) = chromaOf d" "bpmOf (withoutFlux d) = bpmOf d"
  "centroidOf (withoutFlux d) = centroidOf d" "zeroCrossingOf (withoutFlux d) = zeroCrossingOf d"
  by (cases "lowlevel d"; cases "Option.bind (lowlevel d) ll_spectral_flux";
      simp add: withoutFlux_def bpmOf_def mfccMeanOf_def chromaOf_def centroidOf_def fluxOf_def
        zeroCrossingOf_def)+

lemma accessors_withoutZeroCrossing:
  "zeroCrossingOf (withoutZeroCrossing d) = None" "mfccMeanOf (withoutZeroCrossing d) = mfccMeanOf d"
  "chromaOf (withoutZeroCrossing d) = chromaOf d" "bpmOf (withoutZeroCrossing d) = bpmOf d"
  "centroidOf (withoutZeroCrossing d) = centroidOf d" "fluxOf (withoutZeroCrossing d) = fluxOf d"
  by (cases "lowlevel d"; cases "Option.bind (lowlevel d) ll_zerocrossingrate";
      simp add: withoutZeroCrossing_def bpmOf_def mfccMeanOf_def chromaOf_def centroidOf_def fluxOf_def
        zeroCrossingOf_def)+

lemma aggregateFeatures_cong:
  "collectAll docs = collectAll docs' \<Longrightarrow> aggregateFeatures docs = aggregateFeatures docs'"
  by (simp add: aggregateFeatures_def)

lemma zero_bpm_as_absent:
  assumes "bpmOf d = Some 0"
  shows "aggregateFeatures (xs @ d # ys) = aggregateFeatures (xs @ withoutBpm d # ys)"
  by (rule aggregateFeatures_cong)
     (simp add: collectAll_eq accessors_withoutBpm assms pushNumber_Nil)

lemma zero_centroid_as_absent:
  assumes "centroidOf d = Some 0"
  shows "aggregateFeatures (xs @ d # ys) = aggregateFeatures (xs @ withoutCentroid d # ys)"
  by (rule aggregateFeatures_cong)
     (simp add: collectAll_eq accessors_withoutCentroid assms pushNumber_Nil)

lemma zero_flux_as_absent:
  assumes "fluxOf d = Some 0"
  shows "aggregateFeatures (xs @ d # ys) = aggregateFeatures (xs @ withoutFlux d # ys)"
  by (rule aggregateFeatures_cong)
     (simp add: collectAll_eq accessors_withoutFlux assms pushNumber_Nil)

lemma zero_zeroCrossing_as_absent:
  assumes "zeroCrossingOf d = Some 0"
  shows "aggregateFeatures (xs @ d # ys) = aggregateFeatures (xs @ withoutZeroCrossing d # ys)"
  by (rule aggregateFeatures_cong)
     (simp add: collectAll_eq accessors_withoutZeroCrossing assms pushNumber_Nil)

text \<open>
  C10, as stated, fails for an empty array: an empty array is truthy, so a document whose
  lowlevel.mfcc.mean is [] is pushed. As the first document it makes the mean vector
  empty, where the same document without the field leaves the mean vector [1, 2].
\<close>

theorem C10_empty_array_included_counterexample:
  "mfccMeanOf (mfccDoc []) = Some [] \<and>
   mfccMeanOf (withoutMfccMean (mfccDoc [])) = None \<and>
   mean_vector (mfcc (aggregateFeatures [mfccDoc [], mfccDoc [1, 2]])) = [] \<and>
   mean_vector (mfcc (aggregateFeatures [withoutMfccMean (mfccDoc []), mfccDoc [1, 2]])) = [1, 2] \<and>
   mean_vector (mfcc (aggregateFeatures [mfccDoc [], mfccDoc [1, 2]]))
     \<noteq> mean_vector (mfcc (aggregateFeatures [withoutMfccMean (mfccDoc []), mfccDoc [1, 2]]))"
proof -
  have a: "mfccMeanOf (mfccDoc v) = Some v" for v by (simp add: mfccMeanOf_def mfccDoc_def)
  have b: "mfccMeanOf (withoutMfccMean (mfccDoc [])) = None"
    by (simp add: mfccMeanOf_def mfccDoc_def withoutMfccMean_def)
  have m1: "meanVector [[], [1, 2]] = []" by code_simp
  have m2: "meanVector [[1, 2]] = [1, 2]" by code_simp
  show ?thesis
    by (simp add: mfcc_aggregate collectAll_eq a b pushArray_Nil m1 m2)
qed

text \<open>
  C10, amended. A scalar field (rhythm.bpm, lowlevel.spectral_centroid.mean,
  lowlevel.spectral_flux.var, lowlevel.zerocrossingrate.mean) enters its array only when it
  is present and not 0: the array holds the non-zero values of the field, in the order of
  the documents, and a document whose field is 0 gives the same aggregate as the document
  without the field, wherever it stands in the list. A vector field (lowlevel.mfcc.mean,
  tonal.chroma_cens) enters its array whenever it is present, the empty array included.
\<close>

theorem C10_truthy_fields_only:
  "(bpmOf d = Some 0 \<longrightarrow>
      bpmOf (withoutBpm d) = None \<and>
      aggregateFeatures (xs @ d # ys) = aggregateFeatures (xs @ withoutBpm d # ys)) \<and>
   (centroidOf d = Some 0 \<longrightarrow>
      centroidOf (withoutCentroid d) = None \<and>
      aggregateFeatures (xs @ d # ys) = aggregateFeatures (xs @ withoutCentroid d # ys)) \<and>
   (fluxOf d = Some 0 \<longrightarrow>
      fluxOf (withoutFlux d) = None \<and>
      aggregateFeatures (xs @ d # ys) = aggregateFeatures (xs @ withoutFlux d # ys)) \<and>
   (zeroCrossingOf d = Some 0 \<longrightarrow>
      zeroCrossingOf (withoutZeroCrossing d) = None \<and>
      aggregateFeatures (xs @ d # ys) = aggregateFeatures (xs @ withoutZeroCrossing d # ys)) \<and>
   tempos (collectAll docs) = filter (\<lambda>b. b \<noteq> 0) (List.map_filter bpmOf docs) \<and>
   centroids (collectAll docs) = filter (\<lambda>b. b \<noteq> 0) (List.map_filter centroidOf docs) \<and>
   fluxes (collectAll docs) = filter (\<lambda>b. b \<noteq> 0) (List.map_filter fluxOf docs) \<and>
   zeroCrossings (collectAll docs) = filter (\<lambda>b. b \<noteq> 0) (List.map_filter zeroCrossingOf docs) \<and>
   mfccs (collectAll docs) = List.map_filter mfccMeanOf docs \<and>
   chromas (collectAll docs) = List.map_filter chromaOf docs"
  by (simp add: zero_bpm_as_absent zero_centroid_as_absent zero_flux_as_absent
      zero_zeroCrossing_as_absent accessors_withoutBpm(1) accessors_withoutCentroid(1)
      accessors_withoutFlux(1) accessors_withoutZeroCrossing(1)
      collectAll_eq concat_pushNumber concat_pushArray)

theorem C10_truthy_fields_only_witness:
  "bpmOf (scalarDoc 0 0 0 0) = Some 0 \<and> centroidOf (scalarDoc 0 0 0 0) = Some 0 \<and>
   fluxOf (scalarDoc 0 0 0 0) = Some 0 \<and> zeroCrossingOf (scalarDoc 0 0 0 0) = Some 0 \<and>
   aggregateFeatures [bpmDoc 120, scalarDoc 0 0 0 0, bpmDoc 140]
     = aggregateFeatures [bpmDoc 120, withoutBpm (scalarDoc 0 0 0 0), bpmDoc 140] \<and>
   aggregateFeatures [bpmDoc 120, scalarDoc 0 0 0 0, bpmDoc 140]
     = aggregateFeatures [bpmDoc 120, withoutCentroid (scalarDoc 0 0 0 0), bpmDoc 140] \<and>
   aggregateFeatures [bpmDoc 120, scalarDoc 0 0 0 0, bpmDoc 140]
     = aggregateFeatures [bpmDoc 120, withoutFlux (scalarDoc 0 0 0 0), bpmDoc 140] \<and>
   aggregateFeatures [bpmDoc 120, scalarDoc 0 0 0 0, bpmDoc 140]
     = aggregateFeatures [bpmDoc 120, withoutZeroCrossing (scalarDoc 0 0 0 0), bpmDoc 140] \<and>
   tempos (collectAll [bpmDoc 120, scalarDoc 0 0 0 0, bpmDoc 140]) = [120, 140] \<and>
   tempo (aggregateFeatures [bpmDoc 120, scalarDoc 0 0 0 0, bpmDoc 140])
     = \<lparr> tempo_mean = 130, tempo_std = 10, tempo_range = [120, 140] \<rparr>"
proof -
  let ?d = "scalarDoc 0 0 0 0"
  have h: "bpmOf ?d = Some 0" "centroidOf ?d = Some 0" "fluxOf ?d = Some 0"
    "zeroCrossingOf ?d = Some 0"
    by (simp_all add: scalarDoc_def bpmOf_def centroidOf_def fluxOf_def zeroCrossingOf_def)
  note c = C10_truthy_fields_only [of ?d "[bpmDoc 120]" "[bpmDoc 140]"
      "[bpmDoc 120, scalarDoc 0 0 0 0, bpmDoc 140]"]
  from c h have e: "aggregateFeatures ([bpmDoc 120] @ ?d # [bpmDoc 140])
       = aggregateFeatures ([bpmDoc 120] @ withoutBpm ?d # [bpmDoc 140])"
    "aggregateFeatures ([bpmDoc 120] @ ?d # [bpmDoc 140])
       = aggregateFeatures ([bpmDoc 120] @ withoutCentroid ?d # [bpmDoc 140])"
    "aggregateFeatures ([bpmDoc 120] @ ?d # [bpmDoc 140])
       = aggregateFeatures ([bpmDoc 120] @ withoutFlux ?d # [bpmDoc 140])"
    "aggregateFeatures ([bpmDoc 120] @ ?d # [bpmDoc 140])
       = aggregateFeatures ([bpmDoc 120] @ withoutZeroCrossing ?d # [bpmDoc 140])"
    by blast+
  from c have "tempos (collectAll [bpmDoc 120, ?d, bpmDoc 140])
      = filter (\<lambda>b. b \<noteq> 0) (List.map_filter bpmOf [bpmDoc 120, ?d, bpmDoc 140])"
    by blast
  moreover have "bpmOf (bpmDoc x) = Some x" for x by (simp add: bpmOf_def bpmDoc_def)
  ultimately have t: "tempos (collectAll [bpmDoc 120, ?d, bpmDoc 140]) = [120, 140]"
    by (simp add: List.map_filter_simps h)
  have s: "tempo (aggregateFeatures [bpmDoc 120, ?d, bpmDoc 140])
     = \<lparr> tempo_mean = 130, tempo_std = 10, tempo_range = [120, 140] \<rparr>"
    by (simp add: tempo_aggregate t mean_def std_def tempoRange_def Let_def sqrt_100)
  from h e t s show ?thesis by simp
qed


end
